theory Spec2Isabelle
  imports Complex_Main "HOL-Library.Multiset"
begin

section \<open>Strings\<close>

text \<open>
  Go strings are byte strings; they are modelled as \<open>string\<close> (a list of 8-bit characters).
  \<open>strings.ToLower\<close> is modelled on the ASCII letters: it maps \<open>A\<close>..\<open>Z\<close> to \<open>a\<close>..\<open>z\<close> and
  leaves every other byte alone. \<open>strings.HasPrefix\<close> and \<open>strings.Contains\<close> are the
  usual prefix and contiguous-substring tests.
\<close>

definition ToLower_char :: "char \<Rightarrow> char" where
  "ToLower_char c =
     (let n = of_char c :: nat in
      if of_char CHR ''A'' \<le> n \<and> n \<le> of_char CHR ''Z''
      then char_of (n + (of_char CHR ''a'' - of_char CHR ''A''))
      else c)"

definition ToLower :: "string \<Rightarrow> string" where
  "ToLower s = map ToLower_char s"


fun HasPrefix :: "string \<Rightarrow> string \<Rightarrow> bool" where
  "HasPrefix s [] = True"
| "HasPrefix [] (p # ps) = False"
| "HasPrefix (c # s) (p # ps) = (if c = p then HasPrefix s ps else False)"

fun Contains :: "string \<Rightarrow> string \<Rightarrow> bool" where
  "Contains [] substr = (substr = [])"
| "Contains (c # s) substr = (if HasPrefix (c # s) substr then True else Contains s substr)"

section \<open>Model aliases (proxy/converter/claude\_to\_newapi.go)\<close>

text \<open>
  \<open>getModelMapping\<close> builds a Go map. Its entries are listed here in the order of the
  source; a lookup \<open>c.modelMapping[k]\<close> is \<open>map_of modelMapping k\<close>.
\<close>

definition modelMapping :: "(string \<times> string) list" where
  "modelMapping =
     [(''claude-3-opus-20240229'', ''claude-3-opus-20240229''),
      (''claude-3-sonnet-20240229'', ''claude-3-sonnet-20240229''),
      (''claude-3-haiku-20240307'', ''claude-3-haiku-20240307''),
      (''claude-3-5-sonnet-20241022'', ''claude-3-5-sonnet-20241022''),
      (''claude-3-5-haiku-20241022'', ''claude-3-5-haiku-20241022''),
      (''claude-3-opus'', ''claude-3-opus-20240229''),
      (''claude-3-sonnet'', ''claude-3-sonnet-20240229''),
      (''claude-3-haiku'', ''claude-3-haiku-20240307''),
      (''claude-3.5-sonnet'', ''claude-3-5-sonnet-20241022''),
      (''claude-3.5-haiku'', ''claude-3-5-haiku-20241022''),
      (''opus'', ''claude-3-opus-20240229''),
      (''sonnet'', ''claude-3-sonnet-20240229''),
      (''haiku'', ''claude-3-haiku-20240307'')]"

text \<open>
  Go does not fix the order in which \<open>for pattern, mapped := range c.modelMapping\<close> visits
  the entries. The loop is therefore modelled over an explicit list \<open>order\<close>, the order the
  runtime happens to choose: any arrangement of the entries of the map, each visited once.
\<close>

definition iteration_order :: "(string \<times> string) list \<Rightarrow> bool" where
  "iteration_order order \<longleftrightarrow> mset order = mset modelMapping"

text \<open>The fuzzy-match loop of \<open>mapModel\<close>: the first visited pattern contained in the
  (already lowered) name decides.\<close>

fun fuzzy_match :: "(string \<times> string) list \<Rightarrow> string \<Rightarrow> string option" where
  "fuzzy_match [] claudeModel = None"
| "fuzzy_match ((pattern, mapped) # rest) claudeModel =
     (if Contains claudeModel (ToLower pattern) then Some mapped
      else fuzzy_match rest claudeModel)"

text \<open>\<open>mapModel\<close>: direct lookup first; otherwise the parameter is overwritten with its
  lower-case form, the fuzzy loop runs on it, and if no pattern matches the (overwritten)
  parameter is returned.\<close>

definition mapModel :: "(string \<times> string) list \<Rightarrow> string \<Rightarrow> string" where
  "mapModel order claudeModel =
     (case map_of modelMapping claudeModel of
        Some mapped \<Rightarrow> mapped
      | None \<Rightarrow>
          (let lowered = ToLower claudeModel in
           case fuzzy_match order lowered of
             Some mapped \<Rightarrow> mapped
           | None \<Rightarrow> lowered))"

section \<open>Errors\<close>

text \<open>
  Go \<open>error\<close> values that reach the modelled code. \<open>ClaudeErr\<close> is a
  \<open>*ClaudeError\<close> of proxy/types; \<open>ErrorString\<close> is an error that only carries a text
  (\<open>fmt.Errorf\<close> without \<open>%w\<close>, and the errors of the standard library);
  \<open>Wrapped prefix e\<close> is \<open>fmt.Errorf(prefix + "%w", e)\<close>; \<open>APIErr\<close> and
  \<open>StreamErr\<close> are the SDK's \<open>*APIError\<close> and \<open>*StreamError\<close>; \<open>EOF\<close> is \<open>io.EOF\<close>.
\<close>

record ErrorDetail =
  detail_Type :: string
  detail_Message :: string

record ClaudeError =
  cerr_Type :: string
  cerr_ErrorDetail :: ErrorDetail

record APIError =
  api_Type :: string
  api_Code :: string
  api_Message :: string
  api_HTTPStatusCode :: int

record StreamError =
  serr_Type :: string
  serr_Code :: string
  serr_Message :: string

datatype error =
    ClaudeErr ClaudeError
  | ErrorString string
  | Wrapped string error
  | APIErr APIError
  | StreamErr StreamError
  | EOF

text \<open>The \<open>Error()\<close> methods.\<close>

fun Error :: "error \<Rightarrow> string" where
  "Error (ClaudeErr e) = detail_Message (cerr_ErrorDetail e)"
| "Error (ErrorString s) = s"
| "Error (Wrapped prefix e) = prefix @ Error e"
| "Error (APIErr e) = api_Code e @ '': '' @ api_Message e"
| "Error (StreamErr e) = ''stream error: '' @ serr_Message e"
| "Error EOF = ''EOF''"

definition NewClaudeError :: "string \<Rightarrow> string \<Rightarrow> ClaudeError" where
  "NewClaudeError errorType message =
     \<lparr>cerr_Type = ''error'',
      cerr_ErrorDetail = \<lparr>detail_Type = errorType, detail_Message = message\<rparr>\<rparr>"

definition NewInvalidRequestError :: "string \<Rightarrow> ClaudeError" where
  "NewInvalidRequestError message = NewClaudeError ''invalid_request_error'' message"

definition NewAuthenticationError :: "string \<Rightarrow> ClaudeError" where
  "NewAuthenticationError message = NewClaudeError ''authentication_error'' message"

definition NewAPIError :: "string \<Rightarrow> ClaudeError" where
  "NewAPIError message = NewClaudeError ''api_error'' message"

definition NewRateLimitError :: "string \<Rightarrow> ClaudeError" where
  "NewRateLimitError message = NewClaudeError ''rate_limit_error'' message"

text \<open>The \<open>%d\<close> verb of \<open>fmt.Sprintf\<close> on a loop index (never negative).\<close>

fun Itoa :: "nat \<Rightarrow> string" where
  "Itoa n =
     (if n < 10 then [''0123456789'' ! n]
      else Itoa (n div 10) @ [''0123456789'' ! (n mod 10)])"

declare Itoa.simps [simp del]

section \<open>Client protocol types (proxy/types/claude.go)\<close>

abbreviation RoleUser :: string where "RoleUser \<equiv> ''user''"
abbreviation RoleAssistant :: string where "RoleAssistant \<equiv> ''assistant''"
abbreviation RoleSystem :: string where "RoleSystem \<equiv> ''system''"

abbreviation ContentTypeText :: string where "ContentTypeText \<equiv> ''text''"
abbreviation ContentTypeImage :: string where "ContentTypeImage \<equiv> ''image''"

abbreviation StopReasonEndTurn :: string where "StopReasonEndTurn \<equiv> ''end_turn''"
abbreviation StopReasonMaxTokens :: string where "StopReasonMaxTokens \<equiv> ''max_tokens''"
abbreviation StopReasonToolUse :: string where "StopReasonToolUse \<equiv> ''tool_use''"

record Image =
  img_Type :: string
  img_MediaType :: string
  img_Data :: string

text \<open>\<open>Source\<close> is a pointer: \<open>None\<close> is \<open>nil\<close>.\<close>

record ContentItem =
  item_Type :: string
  item_Text :: string
  item_Source :: "Image option"
  item_ImageURL :: string

record ClaudeMessage =
  msg_Role :: string
  msg_Content :: "ContentItem list"

record Metadata =
  meta_UserID :: string

text \<open>
  \<open>int\<close> fields are only compared with constants, so they are unbounded integers here.
  The \<open>float64\<close> fields are only compared with 0 and 1; they are modelled as reals (a
  value decoded from JSON is never NaN or infinite).
\<close>

record ClaudeRequest =
  req_Model :: string
  req_MaxTokens :: int
  req_Messages :: "ClaudeMessage list"
  req_System :: string
  req_Temperature :: real
  req_TopP :: real
  req_TopK :: int
  req_StopSequences :: "string list"
  req_Stream :: bool
  req_Metadata :: "Metadata option"

text \<open>\<open>ClaudeRequest.Validate\<close>: the checks of the type itself.\<close>

fun Validate_messages :: "ClaudeMessage list \<Rightarrow> nat \<Rightarrow> error option" where
  "Validate_messages [] i = None"
| "Validate_messages (msg # rest) i =
     (if msg_Role msg \<noteq> RoleUser \<and> msg_Role msg \<noteq> RoleAssistant then
        Some (ClaudeErr \<lparr>cerr_Type = ''error'',
          cerr_ErrorDetail = \<lparr>detail_Type = ''invalid_request_error'',
            detail_Message = ''invalid role at message '' @ Itoa i @ '': '' @ msg_Role msg\<rparr>\<rparr>)
      else if length (msg_Content msg) = 0 then
        Some (ClaudeErr \<lparr>cerr_Type = ''error'',
          cerr_ErrorDetail = \<lparr>detail_Type = ''invalid_request_error'',
            detail_Message = ''message '' @ Itoa i @ '' content cannot be empty''\<rparr>\<rparr>)
      else Validate_messages rest (Suc i))"

definition Validate :: "ClaudeRequest \<Rightarrow> error option" where
  "Validate r =
     (if req_Model r = '''' then
        Some (ClaudeErr \<lparr>cerr_Type = ''error'',
          cerr_ErrorDetail = \<lparr>detail_Type = ''invalid_request_error'',
            detail_Message = ''model is required''\<rparr>\<rparr>)
      else if req_MaxTokens r \<le> 0 then
        Some (ClaudeErr \<lparr>cerr_Type = ''error'',
          cerr_ErrorDetail = \<lparr>detail_Type = ''invalid_request_error'',
            detail_Message = ''max_tokens must be positive''\<rparr>\<rparr>)
      else if length (req_Messages r) = 0 then
        Some (ClaudeErr \<lparr>cerr_Type = ''error'',
          cerr_ErrorDetail = \<lparr>detail_Type = ''invalid_request_error'',
            detail_Message = ''messages cannot be empty''\<rparr>\<rparr>)
      else Validate_messages (req_Messages r) 0)"

section \<open>Backend protocol types (types package of the SDK)\<close>

abbreviation ChatRoleSystem :: string where "ChatRoleSystem \<equiv> ''system''"
abbreviation ChatRoleUser :: string where "ChatRoleUser \<equiv> ''user''"
abbreviation ChatRoleAssistant :: string where "ChatRoleAssistant \<equiv> ''assistant''"

abbreviation ChatMessageTypeText :: string where "ChatMessageTypeText \<equiv> ''text''"
abbreviation ChatMessageTypeImageURL :: string where "ChatMessageTypeImageURL \<equiv> ''image_url''"

abbreviation FinishReasonStop :: string where "FinishReasonStop \<equiv> ''stop''"
abbreviation FinishReasonLength :: string where "FinishReasonLength \<equiv> ''length''"
abbreviation FinishReasonContentFilter :: string where
  "FinishReasonContentFilter \<equiv> ''content_filter''"
abbreviation FinishReasonToolCalls :: string where "FinishReasonToolCalls \<equiv> ''tool_calls''"
abbreviation FinishReasonFunctionCall :: string where
  "FinishReasonFunctionCall \<equiv> ''function_call''"

record MessageContent =
  mc_Type :: string
  mc_Text :: string
  mc_ImageURL :: string
  mc_Detail :: string

text \<open>
  \<open>ChatMessage.Content\<close> has type \<open>interface{}\<close>. The dynamic types the code tells apart
  are \<open>string\<close> and \<open>[]MessageContent\<close>; \<open>ContentNil\<close> is the \<open>nil\<close> interface and
  \<open>ContentOther\<close> stands for a value of any other dynamic type (what \<open>encoding/json\<close>
  produces for a JSON array or object). The remaining fields of \<open>ChatMessage\<close> (name, tool
  calls, metadata) are not read or written by the modelled code and are left out.
\<close>

datatype content_value =
    ContentString string
  | ContentParts "MessageContent list"
  | ContentNil
  | ContentOther

record ChatMessage =
  cm_Role :: string
  cm_Content :: content_value

definition NewChatMessage :: "string \<Rightarrow> string \<Rightarrow> ChatMessage" where
  "NewChatMessage role content = \<lparr>cm_Role = role, cm_Content = ContentString content\<rparr>"

definition NewSystemMessage :: "string \<Rightarrow> ChatMessage" where
  "NewSystemMessage content = NewChatMessage ChatRoleSystem content"

text \<open>\<open>ChatMessage.GetTextContent\<close>.\<close>

fun first_text :: "MessageContent list \<Rightarrow> string" where
  "first_text [] = ''''"
| "first_text (c # rest) = (if mc_Type c = ChatMessageTypeText then mc_Text c else first_text rest)"

definition GetTextContent :: "ChatMessage \<Rightarrow> string" where
  "GetTextContent m =
     (case cm_Content m of
        ContentString content \<Rightarrow> content
      | ContentParts content \<Rightarrow> first_text content
      | _ \<Rightarrow> '''')"

text \<open>The functional options of the chat service that the converter produces.\<close>

datatype ChatOption =
    WithModel string
  | WithMaxTokens int
  | WithTemperature real
  | WithTopP real
  | WithStop "string list"
  | WithStream bool

section \<open>Request translation (proxy/converter/claude\_to\_newapi.go)\<close>

text \<open>\<open>validateContent\<close>, \<open>validateMessage\<close> and \<open>ValidateRequest\<close>. A loop with an
  index is a recursion that carries the index.\<close>

definition validateContent :: "ContentItem \<Rightarrow> nat \<Rightarrow> nat \<Rightarrow> error option" where
  "validateContent content msgIndex contentIndex =
     (if item_Type content = ContentTypeText then
        (if item_Text content = '''' then
           Some (ClaudeErr (NewInvalidRequestError
             (''text content cannot be empty at message '' @ Itoa msgIndex
               @ '', content '' @ Itoa contentIndex)))
         else None)
      else if item_Type content = ContentTypeImage then
        (if item_ImageURL content = '''' \<and> item_Source content = None then
           Some (ClaudeErr (NewInvalidRequestError
             (''image content must have either image_url or source at message ''
               @ Itoa msgIndex @ '', content '' @ Itoa contentIndex)))
         else None)
      else
        Some (ClaudeErr (NewInvalidRequestError
          (''unsupported content type: '' @ item_Type content @ '' at message ''
            @ Itoa msgIndex @ '', content '' @ Itoa contentIndex))))"

fun validateContent_loop :: "ContentItem list \<Rightarrow> nat \<Rightarrow> nat \<Rightarrow> error option" where
  "validateContent_loop [] index j = None"
| "validateContent_loop (content # rest) index j =
     (case validateContent content index j of
        Some err \<Rightarrow> Some err
      | None \<Rightarrow> validateContent_loop rest index (Suc j))"

definition validateMessage :: "ClaudeMessage \<Rightarrow> nat \<Rightarrow> error option" where
  "validateMessage msg index =
     (if msg_Role msg \<noteq> RoleUser \<and> msg_Role msg \<noteq> RoleAssistant then
        Some (ClaudeErr (NewInvalidRequestError
          (''invalid role at message '' @ Itoa index @ '': '' @ msg_Role msg)))
      else if length (msg_Content msg) = 0 then
        Some (ClaudeErr (NewInvalidRequestError
          (''message '' @ Itoa index @ '' content cannot be empty'')))
      else validateContent_loop (msg_Content msg) index 0)"

fun validateMessage_loop :: "ClaudeMessage list \<Rightarrow> nat \<Rightarrow> error option" where
  "validateMessage_loop [] i = None"
| "validateMessage_loop (msg # rest) i =
     (case validateMessage msg i of
        Some err \<Rightarrow> Some err
      | None \<Rightarrow> validateMessage_loop rest (Suc i))"

text \<open>The argument of \<open>ValidateRequest\<close> and of \<open>ConvertRequest\<close> is a pointer;
  \<open>None\<close> is \<open>nil\<close>.\<close>

definition ValidateRequest :: "ClaudeRequest option \<Rightarrow> error option" where
  "ValidateRequest claudeReq =
     (case claudeReq of
        None \<Rightarrow> Some (ClaudeErr (NewInvalidRequestError ''request is nil''))
      | Some r \<Rightarrow>
          if req_Model r = '''' then
            Some (ClaudeErr (NewInvalidRequestError ''model is required''))
          else if req_MaxTokens r \<le> 0 then
            Some (ClaudeErr (NewInvalidRequestError ''max_tokens must be positive''))
          else if req_MaxTokens r > 200000 then
            Some (ClaudeErr (NewInvalidRequestError ''max_tokens cannot exceed 200000''))
          else if length (req_Messages r) = 0 then
            Some (ClaudeErr (NewInvalidRequestError ''messages cannot be empty''))
          else if req_Temperature r < 0 \<or> req_Temperature r > 1 then
            Some (ClaudeErr (NewInvalidRequestError ''temperature must be between 0 and 1''))
          else if req_TopP r < 0 \<or> req_TopP r > 1 then
            Some (ClaudeErr (NewInvalidRequestError ''top_p must be between 0 and 1''))
          else if req_TopK r < 0 then
            Some (ClaudeErr (NewInvalidRequestError ''top_k must be non-negative''))
          else validateMessage_loop (req_Messages r) 0)"

text \<open>\<open>convertContent\<close>: a single text item collapses to a plain string; otherwise the
  items are appended one by one to \<open>messageContents\<close>, an image only if it has a URL.\<close>

fun convertContent_loop ::
  "ContentItem list \<Rightarrow> MessageContent list \<Rightarrow> error + MessageContent list" where
  "convertContent_loop [] messageContents = Inr messageContents"
| "convertContent_loop (item # rest) messageContents =
     (if item_Type item = ContentTypeText then
        convertContent_loop rest (messageContents @
          [\<lparr>mc_Type = ChatMessageTypeText, mc_Text = item_Text item,
            mc_ImageURL = '''', mc_Detail = ''''\<rparr>])
      else if item_Type item = ContentTypeImage then
        (if item_ImageURL item \<noteq> '''' then
           convertContent_loop rest (messageContents @
             [\<lparr>mc_Type = ChatMessageTypeImageURL, mc_Text = '''',
               mc_ImageURL = item_ImageURL item, mc_Detail = ''''\<rparr>])
         else convertContent_loop rest messageContents)
      else Inl (ErrorString (''unsupported content type: '' @ item_Type item)))"

definition convertContent :: "ContentItem list \<Rightarrow> error + content_value" where
  "convertContent claudeContent =
     (if length claudeContent = 0 then Inl (ErrorString ''content cannot be empty'')
      else if length claudeContent = 1 \<and> item_Type (claudeContent ! 0) = ContentTypeText then
        Inr (ContentString (item_Text (claudeContent ! 0)))
      else
        (case convertContent_loop claudeContent [] of
           Inl err \<Rightarrow> Inl err
         | Inr messageContents \<Rightarrow> Inr (ContentParts messageContents)))"

definition convertMessage :: "ClaudeMessage \<Rightarrow> error + ChatMessage" where
  "convertMessage claudeMsg =
     (if msg_Role claudeMsg \<noteq> RoleUser \<and> msg_Role claudeMsg \<noteq> RoleAssistant
         \<and> msg_Role claudeMsg \<noteq> RoleSystem then
        Inl (ErrorString (''unsupported role: '' @ msg_Role claudeMsg))
      else
        (let role = (if msg_Role claudeMsg = RoleUser then ChatRoleUser
                     else if msg_Role claudeMsg = RoleAssistant then ChatRoleAssistant
                     else ChatRoleSystem)
         in case convertContent (msg_Content claudeMsg) of
              Inl err \<Rightarrow> Inl err
            | Inr content \<Rightarrow> Inr \<lparr>cm_Role = role, cm_Content = content\<rparr>))"

fun convertMessages_loop :: "ClaudeMessage list \<Rightarrow> ChatMessage list \<Rightarrow> error + ChatMessage list" where
  "convertMessages_loop [] messages = Inr messages"
| "convertMessages_loop (claudeMsg # rest) messages =
     (case convertMessage claudeMsg of
        Inl err \<Rightarrow> Inl err
      | Inr newAPIMsg \<Rightarrow> convertMessages_loop rest (messages @ [newAPIMsg]))"

definition convertMessages :: "ClaudeMessage list \<Rightarrow> string \<Rightarrow> error + ChatMessage list" where
  "convertMessages claudeMessages systemMessage =
     convertMessages_loop claudeMessages
       (if systemMessage \<noteq> '''' then [NewSystemMessage systemMessage] else [])"

text \<open>\<open>convertOptions\<close> never fails; the model name goes through \<open>mapModel\<close>, whose map
  iteration order is the parameter \<open>order\<close>.\<close>

definition convertOptions :: "(string \<times> string) list \<Rightarrow> ClaudeRequest \<Rightarrow> ChatOption list" where
  "convertOptions order claudeReq =
     (if req_Model claudeReq \<noteq> '''' then [WithModel (mapModel order (req_Model claudeReq))] else [])
     @ (if req_MaxTokens claudeReq > 0 then [WithMaxTokens (req_MaxTokens claudeReq)] else [])
     @ (if req_Temperature claudeReq > 0 then [WithTemperature (req_Temperature claudeReq)] else [])
     @ (if req_TopP claudeReq > 0 then [WithTopP (req_TopP claudeReq)] else [])
     @ (if length (req_StopSequences claudeReq) > 0 then [WithStop (req_StopSequences claudeReq)]
        else [])
     @ (if req_Stream claudeReq then [WithStream True] else [])"

definition ConvertRequest ::
  "(string \<times> string) list \<Rightarrow> ClaudeRequest option
     \<Rightarrow> error + (ChatMessage list \<times> ChatOption list)" where
  "ConvertRequest order claudeReq =
     (case claudeReq of
        None \<Rightarrow> Inl (ErrorString ''claude request is nil'')
      | Some r \<Rightarrow>
          (case Validate r of
             Some err \<Rightarrow> Inl err
           | None \<Rightarrow>
               (case convertMessages (req_Messages r) (req_System r) of
                  Inl err \<Rightarrow> Inl (Wrapped ''failed to convert messages: '' err)
                | Inr messages \<Rightarrow> Inr (messages, convertOptions order r))))"

text \<open>
  Request translation as \<open>HandleMessage\<close> runs it for every request, streaming or not:
  \<open>ValidateRequest\<close> first; if it accepts, \<open>ConvertRequest\<close> (called at the top of
  \<open>handleNormalMessage\<close> and of \<open>handleStreamMessage\<close>).
\<close>

definition translateRequest ::
  "(string \<times> string) list \<Rightarrow> ClaudeRequest
     \<Rightarrow> error + (ChatMessage list \<times> ChatOption list)" where
  "translateRequest order claudeReq =
     (case ValidateRequest (Some claudeReq) of
        Some err \<Rightarrow> Inl err
      | None \<Rightarrow> ConvertRequest order (Some claudeReq))"

text \<open>An error is an InvalidRequest error if it is a \<open>ClaudeError\<close> of type
  \<open>invalid_request_error\<close>.\<close>

fun is_InvalidRequest :: "error \<Rightarrow> bool" where
  "is_InvalidRequest (ClaudeErr e) = (detail_Type (cerr_ErrorDetail e) = ''invalid_request_error'')"
| "is_InvalidRequest _ = False"

text \<open>
  The conditions under which the specification says translation fails, in its words: the
  model is empty; max-tokens is not positive or exceeds the ceiling of 200000; the message
  list is empty; some role is neither user nor assistant; some message has no content item;
  some text item is empty; some image item has neither an inline source nor a URL;
  temperature or top\_p lies outside \<open>[0, 1]\<close>.
\<close>

definition spec_invalid :: "ClaudeRequest \<Rightarrow> bool" where
  "spec_invalid r \<longleftrightarrow>
     req_Model r = ''''
     \<or> req_MaxTokens r \<le> 0 \<or> req_MaxTokens r > 200000
     \<or> req_Messages r = []
     \<or> (\<exists>m \<in> set (req_Messages r). msg_Role m \<noteq> RoleUser \<and> msg_Role m \<noteq> RoleAssistant)
     \<or> (\<exists>m \<in> set (req_Messages r). msg_Content m = [])
     \<or> (\<exists>m \<in> set (req_Messages r). \<exists>c \<in> set (msg_Content m).
           item_Type c = ContentTypeText \<and> item_Text c = '''')
     \<or> (\<exists>m \<in> set (req_Messages r). \<exists>c \<in> set (msg_Content m).
           item_Type c = ContentTypeImage \<and> item_Source c = None \<and> item_ImageURL c = '''')
     \<or> req_Temperature r < 0 \<or> req_Temperature r > 1
     \<or> req_TopP r < 0 \<or> req_TopP r > 1"

text \<open>The two further checks that \<open>ValidateRequest\<close> makes.\<close>

definition extra_invalid :: "ClaudeRequest \<Rightarrow> bool" where
  "extra_invalid r \<longleftrightarrow>
     req_TopK r < 0
     \<or> (\<exists>m \<in> set (req_Messages r). \<exists>c \<in> set (msg_Content m).
           item_Type c \<noteq> ContentTypeText \<and> item_Type c \<noteq> ContentTypeImage)"

text \<open>What \<open>validateContent\<close> and \<open>validateMessage\<close> accept.\<close>

definition content_ok :: "ContentItem \<Rightarrow> bool" where
  "content_ok c \<longleftrightarrow>
     (item_Type c = ContentTypeText \<and> item_Text c \<noteq> '''')
     \<or> (item_Type c = ContentTypeImage \<and> (item_ImageURL c \<noteq> '''' \<or> item_Source c \<noteq> None))"

definition message_ok :: "ClaudeMessage \<Rightarrow> bool" where
  "message_ok m \<longleftrightarrow>
     (msg_Role m = RoleUser \<or> msg_Role m = RoleAssistant)
     \<and> msg_Content m \<noteq> [] \<and> (\<forall>c \<in> set (msg_Content m). content_ok c)"

text \<open>Example requests: a well-formed request, and the same request with a negative
  \<open>top_k\<close>. Temperature and top\_p are 1, the defaults that \<open>SetDefaults\<close> fills in.\<close>

definition request_hi :: ClaudeRequest where
  "request_hi =
     \<lparr>req_Model = ''claude-3-opus'', req_MaxTokens = 100,
      req_Messages = [\<lparr>msg_Role = RoleUser,
        msg_Content = [\<lparr>item_Type = ContentTypeText, item_Text = ''hi'',
                         item_Source = None, item_ImageURL = ''''\<rparr>]\<rparr>],
      req_System = '''', req_Temperature = 1, req_TopP = 1, req_TopK = 0,
      req_StopSequences = [], req_Stream = False, req_Metadata = None\<rparr>"

definition request_negative_top_k :: ClaudeRequest where
  "request_negative_top_k = request_hi\<lparr>req_TopK := - 1\<rparr>"

text \<open>An image item that carries only an inline source, and a text item.\<close>

definition inline_image :: ContentItem where
  "inline_image =
     \<lparr>item_Type = ContentTypeImage, item_Text = '''',
      item_Source = Some \<lparr>img_Type = ''base64'', img_MediaType = ''image/png'',
                            img_Data = ''iVBORw0KGgo=''\<rparr>,
      item_ImageURL = ''''\<rparr>"

definition text_look :: ContentItem where
  "text_look =
     \<lparr>item_Type = ContentTypeText, item_Text = ''look'', item_Source = None,
      item_ImageURL = ''''\<rparr>"

section \<open>Backend responses and chunks (types package of the SDK)\<close>

record Usage =
  usage_PromptTokens :: int
  usage_CompletionTokens :: int
  usage_TotalTokens :: int

text \<open>\<open>ErrorResponse.Param\<close> (an \<open>interface{}\<close>) is never read and is left out.\<close>

record ErrorResponse =
  eresp_Type :: string
  eresp_Code :: string
  eresp_Message :: string

text \<open>Of a choice and of a response the model keeps the fields the converter reads.
  \<open>Error\<close> and \<open>Usage\<close> of a chunk are pointers: \<open>None\<close> is \<open>nil\<close>.\<close>

record ChatCompletionChoice =
  choice_Index :: int
  choice_Message :: ChatMessage
  choice_FinishReason :: string

record ChatCompletionResponse =
  resp_ID :: string
  resp_Model :: string
  resp_Choices :: "ChatCompletionChoice list"
  resp_Usage :: Usage
  resp_Error :: "ErrorResponse option"

record ChatCompletionChunkChoice =
  cchoice_Index :: int
  cchoice_Delta :: ChatMessage
  cchoice_FinishReason :: string

record ChatCompletionChunk =
  chunk_ID :: string
  chunk_Model :: string
  chunk_Choices :: "ChatCompletionChunkChoice list"
  chunk_Usage :: "Usage option"

definition IsError :: "ChatCompletionResponse \<Rightarrow> bool" where
  "IsError r \<longleftrightarrow> resp_Error r \<noteq> None"

definition GetError :: "ChatCompletionResponse \<Rightarrow> ErrorResponse option" where
  "GetError r = resp_Error r"

definition GetFirstChoice :: "ChatCompletionResponse \<Rightarrow> ChatCompletionChoice option" where
  "GetFirstChoice r = (if length (resp_Choices r) > 0 then Some (resp_Choices r ! 0) else None)"

section \<open>Client responses and stream events (proxy/types/claude.go)\<close>

record ClaudeUsage =
  cusage_InputTokens :: int
  cusage_OutputTokens :: int

record ClaudeResponse =
  cresp_ID :: string
  cresp_Type :: string
  cresp_Role :: string
  cresp_Content :: "ContentItem list"
  cresp_Model :: string
  cresp_StopReason :: string
  cresp_StopSequence :: string
  cresp_Usage :: ClaudeUsage

abbreviation EventMessageStart :: string where "EventMessageStart \<equiv> ''message_start''"
abbreviation EventMessageDelta :: string where "EventMessageDelta \<equiv> ''message_delta''"
abbreviation EventMessageStop :: string where "EventMessageStop \<equiv> ''message_stop''"
abbreviation EventContentBlockStart :: string where
  "EventContentBlockStart \<equiv> ''content_block_start''"
abbreviation EventContentBlockDelta :: string where
  "EventContentBlockDelta \<equiv> ''content_block_delta''"
abbreviation EventContentBlockStop :: string where
  "EventContentBlockStop \<equiv> ''content_block_stop''"
abbreviation EventPing :: string where "EventPing \<equiv> ''ping''"
abbreviation EventError :: string where "EventError \<equiv> ''error''"

text \<open>
  The payload structs of the stream events. Each constructor lists the fields of the Go
  struct in order; the first is always its \<open>Type\<close>. \<open>MessageStartEvent\<close> carries the
  fields of its \<open>Message\<close>: id, type, role, content, model and usage.
  \<open>StreamEvent.Data\<close> is the JSON encoding of one of these structs
  (\<open>marshalToRawMessage\<close>, which cannot fail on them); the model keeps the struct.
\<close>

datatype event_payload =
    MessageStartEvent string string string string "ContentItem list" string ClaudeUsage
  | ContentBlockStartEvent string int ContentItem
  | ContentBlockDeltaEvent string int string string
  | ContentBlockStopEvent string int
  | MessageDeltaEvent string string string ClaudeUsage
  | MessageStopEvent string
  | PingEvent string
  | ErrorEvent string ErrorDetail

record StreamEvent =
  ev_Type :: string
  ev_Event :: string
  ev_Data :: event_payload

section \<open>Response translation (proxy/converter/newapi\_to\_claude.go)\<close>

definition stopReasonMapping :: "(string \<times> string) list" where
  "stopReasonMapping =
     [(FinishReasonStop, StopReasonEndTurn),
      (FinishReasonLength, StopReasonMaxTokens),
      (FinishReasonContentFilter, StopReasonEndTurn),
      (FinishReasonToolCalls, StopReasonToolUse),
      (FinishReasonFunctionCall, StopReasonToolUse),
      ('''', StopReasonEndTurn)]"

definition mapStopReason :: "string \<Rightarrow> string" where
  "mapStopReason finishReason =
     (case map_of stopReasonMapping finishReason of
        Some mapped \<Rightarrow> mapped
      | None \<Rightarrow> StopReasonEndTurn)"

definition convertError :: "ErrorResponse option \<Rightarrow> error" where
  "convertError err =
     (case err of
        None \<Rightarrow> ClaudeErr (NewAPIError ''unknown error'')
      | Some e \<Rightarrow>
          if eresp_Type e = ''invalid_request_error'' then
            ClaudeErr (NewInvalidRequestError (eresp_Message e))
          else if eresp_Type e = ''authentication_error'' then
            ClaudeErr (NewAuthenticationError (eresp_Message e))
          else if eresp_Type e = ''rate_limit_error'' then
            ClaudeErr (NewRateLimitError (eresp_Message e))
          else ClaudeErr (NewAPIError (eresp_Message e)))"

text \<open>
  \<open>NewAPIToClaudeConverter.convertContent\<close> (named \<open>convertContent_response\<close> here, the
  request converter has a method of the same name). \<open>collect_content\<close> is its
  type switch, which gathers the representable items; the function itself then adds an
  empty text item if nothing was gathered.
\<close>

fun collect_parts :: "MessageContent list \<Rightarrow> ContentItem list \<Rightarrow> ContentItem list" where
  "collect_parts [] content = content"
| "collect_parts (item # rest) content =
     (if mc_Type item = ChatMessageTypeText then
        (if mc_Text item \<noteq> '''' then
           collect_parts rest (content @
             [\<lparr>item_Type = ContentTypeText, item_Text = mc_Text item,
               item_Source = None, item_ImageURL = ''''\<rparr>])
         else collect_parts rest content)
      else if mc_Type item = ChatMessageTypeImageURL then
        (if mc_ImageURL item \<noteq> '''' then
           collect_parts rest (content @
             [\<lparr>item_Type = ContentTypeImage, item_Text = '''',
               item_Source = None, item_ImageURL = mc_ImageURL item\<rparr>])
         else collect_parts rest content)
      else collect_parts rest content)"

definition collect_content :: "ChatMessage \<Rightarrow> ContentItem list" where
  "collect_content message =
     (case cm_Content message of
        ContentString msgContent \<Rightarrow>
          (if msgContent \<noteq> '''' then
             [\<lparr>item_Type = ContentTypeText, item_Text = msgContent,
               item_Source = None, item_ImageURL = ''''\<rparr>]
           else [])
      | ContentParts msgContent \<Rightarrow> collect_parts msgContent []
      | _ \<Rightarrow>
          (let str = GetTextContent message in
           if str \<noteq> '''' then
             [\<lparr>item_Type = ContentTypeText, item_Text = str,
               item_Source = None, item_ImageURL = ''''\<rparr>]
           else []))"

definition convertContent_response :: "ChatMessage \<Rightarrow> ContentItem list" where
  "convertContent_response message =
     (let content = collect_content message in
      if length content = 0 then
        content @ [\<lparr>item_Type = ContentTypeText, item_Text = '''',
                     item_Source = None, item_ImageURL = ''''\<rparr>]
      else content)"

definition ConvertResponse ::
  "ChatCompletionResponse option \<Rightarrow> string \<Rightarrow> error + ClaudeResponse" where
  "ConvertResponse newAPIResp originalModel =
     (case newAPIResp of
        None \<Rightarrow> Inl (ErrorString ''newapi response is nil'')
      | Some r \<Rightarrow>
          if IsError r then Inl (convertError (GetError r))
          else
            (case GetFirstChoice r of
               None \<Rightarrow> Inl (ErrorString ''no choices in response'')
             | Some choice \<Rightarrow>
                 Inr \<lparr>cresp_ID = resp_ID r,
                      cresp_Type = ''message'',
                      cresp_Role = RoleAssistant,
                      cresp_Content = convertContent_response (choice_Message choice),
                      cresp_Model = originalModel,
                      cresp_StopReason = mapStopReason (choice_FinishReason choice),
                      cresp_StopSequence = '''',
                      cresp_Usage =
                        \<lparr>cusage_InputTokens = usage_PromptTokens (resp_Usage r),
                         cusage_OutputTokens = usage_CompletionTokens (resp_Usage r)\<rparr>\<rparr>))"

section \<open>Stream events of the converter\<close>

definition createMessageStartEvent :: "string \<Rightarrow> string \<Rightarrow> StreamEvent" where
  "createMessageStartEvent messageID model =
     \<lparr>ev_Type = EventMessageStart, ev_Event = ''message_start'',
      ev_Data = MessageStartEvent EventMessageStart messageID ''message'' RoleAssistant [] model
                  \<lparr>cusage_InputTokens = 0, cusage_OutputTokens = 0\<rparr>\<rparr>"

definition createContentBlockStartEvent :: "int \<Rightarrow> StreamEvent" where
  "createContentBlockStartEvent index =
     \<lparr>ev_Type = EventContentBlockStart, ev_Event = ''content_block_start'',
      ev_Data = ContentBlockStartEvent EventContentBlockStart index
                  \<lparr>item_Type = ContentTypeText, item_Text = '''',
                   item_Source = None, item_ImageURL = ''''\<rparr>\<rparr>"

definition createContentDeltaEvent :: "ChatMessage \<Rightarrow> int \<Rightarrow> StreamEvent" where
  "createContentDeltaEvent delta index =
     (let text = GetTextContent delta in
      \<lparr>ev_Type = EventContentBlockDelta, ev_Event = ''content_block_delta'',
       ev_Data = ContentBlockDeltaEvent EventContentBlockDelta index ContentTypeText text\<rparr>)"

definition createContentBlockStopEvent :: "int \<Rightarrow> StreamEvent" where
  "createContentBlockStopEvent index =
     \<lparr>ev_Type = EventContentBlockStop, ev_Event = ''content_block_stop'',
      ev_Data = ContentBlockStopEvent EventContentBlockStop index\<rparr>"

definition createMessageDeltaEvent :: "string \<Rightarrow> Usage option \<Rightarrow> StreamEvent" where
  "createMessageDeltaEvent stopReason usage =
     (let claudeUsage =
            (case usage of
               None \<Rightarrow> \<lparr>cusage_InputTokens = 0, cusage_OutputTokens = 0\<rparr>
             | Some u \<Rightarrow> \<lparr>cusage_InputTokens = usage_PromptTokens u,
                          cusage_OutputTokens = usage_CompletionTokens u\<rparr>)
      in \<lparr>ev_Type = EventMessageDelta, ev_Event = ''message_delta'',
          ev_Data = MessageDeltaEvent EventMessageDelta (mapStopReason stopReason) ''''
                      claudeUsage\<rparr>)"

definition createMessageStopEvent :: StreamEvent where
  "createMessageStopEvent =
     \<lparr>ev_Type = EventMessageStop, ev_Event = ''message_stop'',
      ev_Data = MessageStopEvent EventMessageStop\<rparr>"

definition createPingEvent :: StreamEvent where
  "createPingEvent =
     \<lparr>ev_Type = EventPing, ev_Event = ''ping'', ev_Data = PingEvent EventPing\<rparr>"

definition createErrorEvent :: "error \<Rightarrow> StreamEvent" where
  "createErrorEvent err =
     \<lparr>ev_Type = EventError, ev_Event = ''error'',
      ev_Data = ErrorEvent EventError
                  \<lparr>detail_Type = ''api_error'', detail_Message = Error err\<rparr>\<rparr>"

text \<open>\<open>ConvertStreamChunk\<close>: a chunk whose first choice has a finish reason becomes a
  \<open>message_stop\<close> event, any other chunk a content delta. The argument is a pointer.\<close>

definition ConvertStreamChunk :: "ChatCompletionChunk option \<Rightarrow> string \<Rightarrow> error + StreamEvent" where
  "ConvertStreamChunk chunk originalModel =
     (case chunk of
        None \<Rightarrow> Inl (ErrorString ''chunk is nil'')
      | Some c \<Rightarrow>
          if length (chunk_Choices c) = 0 then Inl (ErrorString ''no choices in chunk'')
          else
            (let choice = chunk_Choices c ! 0 in
             if cchoice_FinishReason choice \<noteq> '''' then Inr createMessageStopEvent
             else Inr (createContentDeltaEvent (cchoice_Delta choice) 0)))"

definition GenerateStreamEvents :: "string \<Rightarrow> string \<Rightarrow> StreamEvent list" where
  "GenerateStreamEvents messageID model =
     [createMessageStartEvent messageID model, createContentBlockStartEvent 0, createPingEvent]"

definition GenerateStreamEndEvents :: "string \<Rightarrow> Usage option \<Rightarrow> StreamEvent list" where
  "GenerateStreamEndEvents stopReason usage =
     [createContentBlockStopEvent 0, createMessageDeltaEvent stopReason usage,
      createMessageStopEvent]"

section \<open>The streaming handler (proxy/server/handlers.go)\<close>

text \<open>
  An event of the SDK stream (\<open>types.StreamEvent\<close>) has a type and raw JSON data. What
  \<open>json.Unmarshal\<close> makes of the data in \<open>processStreamEvent\<close> is part of the input:
  either it fails with some error, or it yields a chunk.
\<close>

datatype raw_data = Malformed error | Decodes ChatCompletionChunk

record SDKStreamEvent =
  sdk_Type :: string
  sdk_Data :: raw_data

abbreviation StreamEventTypeData :: string where "StreamEventTypeData \<equiv> ''data''"

text \<open>\<open>sendStreamError\<close> writes one event; the model returns it.\<close>

definition sendStreamError :: "error \<Rightarrow> StreamEvent" where
  "sendStreamError err =
     \<lparr>ev_Type = EventError, ev_Event = ''error'',
      ev_Data = ErrorEvent EventError
                  \<lparr>detail_Type = ''api_error'', detail_Message = Error err\<rparr>\<rparr>"

text \<open>\<open>processStreamEvent\<close>: the events it writes, or the error it returns (having
  written nothing).\<close>

definition processStreamEvent :: "SDKStreamEvent \<Rightarrow> error + StreamEvent list" where
  "processStreamEvent event =
     (if sdk_Type event = StreamEventTypeData then
        (case sdk_Data event of
           Malformed err \<Rightarrow> Inl err
         | Decodes chunk \<Rightarrow>
             (case ConvertStreamChunk (Some chunk) '''' of
                Inl err \<Rightarrow> Inl err
              | Inr claudeEvent \<Rightarrow> Inr [claudeEvent]))
      else Inr [])"

text \<open>
  The SDK stream is an interface (\<open>types.StreamResponse\<close>); the handler only calls
  \<open>Next\<close>. A run of the stream is the list of events that successive calls return,
  followed by how it ends: \<open>Next\<close> returns an error (\<open>io.EOF\<close> at the regular end), or the
  request context is found done at the top of the loop.
\<close>

datatype stream_end = NextError error | ContextDone

text \<open>The \<open>for\<close> loop of \<open>handleStreamMessage\<close> together with the end events that
  follow it: the events written from the loop on.\<close>

fun stream_loop :: "SDKStreamEvent list \<Rightarrow> stream_end \<Rightarrow> StreamEvent list" where
  "stream_loop [] ContextDone = []"
| "stream_loop [] (NextError err) =
     (if err = EOF then GenerateStreamEndEvents '''' None
      else [sendStreamError err])"
| "stream_loop (event # rest) ending =
     (case processStreamEvent event of
        Inl err \<Rightarrow> [sendStreamError err]
      | Inr written \<Rightarrow> written @ stream_loop rest ending)"

text \<open>
  \<open>handleStreamMessage\<close>. \<open>flusher_ok\<close> says whether the response writer is an
  \<open>http.Flusher\<close>; \<open>created\<close> is the outcome of \<open>CreateChatCompletionStream\<close> (an error, or
  the run of the stream); \<open>messageID\<close> is the id that \<open>GenerateID\<close> draws from the clock.
  The result is the JSON error response (status and body) written when streaming is not
  supported, or else the list of events written to the event stream.
\<close>

definition sendErrorResponse :: "int \<Rightarrow> error \<Rightarrow> int \<times> ClaudeError" where
  "sendErrorResponse statusCode err =
     (case err of
        ClaudeErr ce \<Rightarrow> (statusCode, ce)
      | _ \<Rightarrow> (statusCode, NewAPIError (Error err)))"

definition handleStreamMessage ::
  "bool \<Rightarrow> (string \<times> string) list \<Rightarrow> ClaudeRequest
     \<Rightarrow> error + (SDKStreamEvent list \<times> stream_end) \<Rightarrow> string
     \<Rightarrow> (int \<times> ClaudeError) + StreamEvent list" where
  "handleStreamMessage flusher_ok order claudeReq created messageID =
     (if \<not> flusher_ok then
        Inl (sendErrorResponse 500 (ErrorString ''streaming not supported''))
      else
        (case ConvertRequest order (Some claudeReq) of
           Inl err \<Rightarrow> Inr [sendStreamError err]
         | Inr converted \<Rightarrow>
             (case created of
                Inl err \<Rightarrow> Inr [sendStreamError err]
              | Inr (events, ending) \<Rightarrow>
                  Inr (GenerateStreamEvents messageID (req_Model claudeReq)
                       @ stream_loop events ending))))"



text \<open>The event names of a list of events.\<close>

definition event_names :: "StreamEvent list \<Rightarrow> string list" where
  "event_names evs = map ev_Event evs"

text \<open>Chunks with one choice, as the backend sends them.\<close>

definition delta_chunk :: "string \<Rightarrow> string \<Rightarrow> ChatCompletionChunk" where
  "delta_chunk text finish =
     \<lparr>chunk_ID = ''chatcmpl-1'', chunk_Model = ''m'',
      chunk_Choices = [\<lparr>cchoice_Index = 0,
         cchoice_Delta = \<lparr>cm_Role = '''', cm_Content = ContentString text\<rparr>,
         cchoice_FinishReason = finish\<rparr>],
      chunk_Usage = None\<rparr>"

definition data_event :: "ChatCompletionChunk \<Rightarrow> SDKStreamEvent" where
  "data_event chunk = \<lparr>sdk_Type = StreamEventTypeData, sdk_Data = Decodes chunk\<rparr>"

text \<open>Scenario C of the specification: deltas \<open>Hel\<close> and \<open>lo\<close>, then an empty delta with
  finish reason \<open>length\<close>; the stream then ends regularly.\<close>

definition scenario_C :: "SDKStreamEvent list" where
  "scenario_C =
     [data_event (delta_chunk ''Hel'' ''''), data_event (delta_chunk ''lo'' ''''),
      data_event (delta_chunk '''' FinishReasonLength)]"

text \<open>A shorter run: one delta \<open>Hi\<close>, then a chunk with finish reason \<open>stop\<close>.\<close>

definition delta_then_stop :: "SDKStreamEvent list" where
  "delta_then_stop =
     [data_event (delta_chunk ''Hi'' ''''), data_event (delta_chunk '''' FinishReasonStop)]"

text \<open>A backend response whose only choice has JSON \<open>null\<close> content.\<close>

definition null_content_response :: ChatCompletionResponse where
  "null_content_response =
     \<lparr>resp_ID = ''chatcmpl-7'', resp_Model = ''m'',
      resp_Choices = [\<lparr>choice_Index = 0,
         choice_Message = \<lparr>cm_Role = ChatRoleAssistant, cm_Content = ContentNil\<rparr>,
         choice_FinishReason = FinishReasonStop\<rparr>],
      resp_Usage = \<lparr>usage_PromptTokens = 5, usage_CompletionTokens = 0, usage_TotalTokens = 5\<rparr>,
      resp_Error = None\<rparr>"

text \<open>A run in which the second event of the stream does not decode.\<close>

definition delta_then_garbage :: "SDKStreamEvent list" where
  "delta_then_garbage =
     [data_event (delta_chunk ''Hi'' ''''),
      \<lparr>sdk_Type = StreamEventTypeData,
       sdk_Data = Malformed (ErrorString ''unexpected end of JSON input'')\<rparr>]"

section \<open>Retry policy and retry loop (transport package)\<close>

text \<open>A \<open>time.Duration\<close> counts nanoseconds in an \<open>int64\<close>.\<close>

abbreviation Second :: int where "Second \<equiv> 1000000000"

definition wrap_int64 :: "int \<Rightarrow> int" where
  "wrap_int64 v = (let x = v mod 2 ^ 64 in if x \<ge> 2 ^ 63 then x - 2 ^ 64 else x)"

record DefaultRetryPolicy =
  maxRetries :: int
  baseDelay :: int

definition NewDefaultRetryPolicy :: DefaultRetryPolicy where
  "NewDefaultRetryPolicy = \<lparr>maxRetries = 3, baseDelay = 1 * Second\<rparr>"

definition MaxRetries :: "DefaultRetryPolicy \<Rightarrow> int" where
  "MaxRetries p = maxRetries p"

text \<open>
  \<open>BackoffDelay\<close>: \<open>baseDelay * time.Duration(math.Pow(2, float64(retryCount)))\<close>, capped
  at 30 seconds. The retry loop only passes counts from 0 up; for a count up to 62 the
  power is computed exactly and fits an \<open>int64\<close>, and the product wraps as Go's \<open>int64\<close>
  multiplication does. (Larger counts, where the conversion of the float overflows, are
  outside the model; the default policy never goes beyond 2.)
\<close>

definition BackoffDelay :: "DefaultRetryPolicy \<Rightarrow> nat \<Rightarrow> int" where
  "BackoffDelay p retryCount =
     (let delay = wrap_int64 (baseDelay p * 2 ^ retryCount) in
      if delay > 30 * Second then 30 * Second else delay)"

text \<open>
  What one call of the request handler returns: the pair \<open>(resp, err)\<close>. Of a response
  only the status code is read; \<open>None\<close> is \<open>nil\<close>. An error is either a \<open>net.Error\<close>, with
  the answers of its \<open>Temporary()\<close> and \<open>Timeout()\<close> methods, or any other error.
\<close>

datatype transport_error = NetError bool bool | OtherError string

record attempt =
  att_resp :: "int option"
  att_err :: "transport_error option"

text \<open>
  The request context, as the loop observes it: whether \<open>ctx.Err()\<close> is non-nil when
  retry number \<open>n\<close> is considered, and whether the context is done before the timer fires
  in the wait that follows.
\<close>

record retry_context =
  done_at_check :: "nat \<Rightarrow> bool"
  done_in_wait :: "nat \<Rightarrow> bool"

definition retryable_status :: "int \<Rightarrow> bool" where
  "retryable_status code \<longleftrightarrow> code = 429 \<or> code = 500 \<or> code = 502 \<or> code = 503 \<or> code = 504"

text \<open>\<open>DefaultRetryPolicy.ShouldRetry\<close>.\<close>

definition policy_ShouldRetry :: "retry_context \<Rightarrow> attempt \<Rightarrow> nat \<Rightarrow> bool" where
  "policy_ShouldRetry ctx a retryCount =
     (if done_at_check ctx retryCount then False
      else
        (case att_err a of
           Some (NetError temporary timeout) \<Rightarrow> temporary \<or> timeout
         | Some (OtherError msg) \<Rightarrow> True
         | None \<Rightarrow>
             (case att_resp a of
                Some code \<Rightarrow> retryable_status code
              | None \<Rightarrow> False)))"

text \<open>\<open>ResponseHandler.ShouldRetry\<close>.\<close>

definition handler_ShouldRetry :: "int \<Rightarrow> bool" where
  "handler_ShouldRetry code = retryable_status code"

text \<open>\<open>HTTPClient.shouldRetry\<close>.\<close>

definition shouldRetry :: "DefaultRetryPolicy \<Rightarrow> retry_context \<Rightarrow> attempt \<Rightarrow> nat \<Rightarrow> bool" where
  "shouldRetry p ctx a retryCount =
     (if done_at_check ctx retryCount then False
      else if int retryCount \<ge> MaxRetries p then False
      else if att_err a \<noteq> None then policy_ShouldRetry ctx a retryCount
      else
        (case att_resp a of
           Some code \<Rightarrow> handler_ShouldRetry code \<and> policy_ShouldRetry ctx a retryCount
         | None \<Rightarrow> False))"

text \<open>
  \<open>HTTPClient.doWithRetry\<close>. \<open>backend n\<close> is what the handler chain returns on its call
  number \<open>n\<close> (counting from 0); the loop makes one call per round, so the call number is
  the retry count. The result is what the function returns, either the last \<open>(resp, err)\<close>
  or \<open>(nil, ctx.Err())\<close>, together with the delays it has waited, in order.
\<close>

datatype retry_result = Returned attempt | Cancelled

function doWithRetry_loop ::
  "DefaultRetryPolicy \<Rightarrow> retry_context \<Rightarrow> (nat \<Rightarrow> attempt) \<Rightarrow> nat \<Rightarrow> int list
     \<Rightarrow> retry_result \<times> int list" where
  "doWithRetry_loop p ctx backend retryCount waited =
     (if att_err (backend retryCount) = None \<or> int retryCount \<ge> MaxRetries p then
        (Returned (backend retryCount), waited)
      else if \<not> shouldRetry p ctx (backend retryCount) retryCount then
        (Returned (backend retryCount), waited)
      else if done_in_wait ctx retryCount then (Cancelled, waited)
      else doWithRetry_loop p ctx backend (Suc retryCount)
             (waited @ [BackoffDelay p retryCount]))"
  by pat_completeness auto
termination
  by (relation "measure (\<lambda>(p, ctx, backend, retryCount, waited). nat (MaxRetries p) - retryCount)")
     auto

declare doWithRetry_loop.simps [simp del]

definition doWithRetry ::
  "DefaultRetryPolicy \<Rightarrow> retry_context \<Rightarrow> (nat \<Rightarrow> attempt) \<Rightarrow> retry_result \<times> int list" where
  "doWithRetry p ctx backend = doWithRetry_loop p ctx backend 0 []"

text \<open>A context that is never cancelled, and a backend that answers 503 twice and then
  200.\<close>

definition background :: retry_context where
  "background = \<lparr>done_at_check = (\<lambda>n. False), done_in_wait = (\<lambda>n. False)\<rparr>"

definition answers :: "int \<Rightarrow> attempt" where
  "answers code = \<lparr>att_resp = Some code, att_err = None\<rparr>"

definition backend_503_503_200 :: "nat \<Rightarrow> attempt" where
  "backend_503_503_200 n = (if n < 2 then answers 503 else answers 200)"

text \<open>
  A failed call of \<open>http.Client.Do\<close> returns a \<open>*url.Error\<close>, which is a \<open>net.Error\<close>. For a
  refused connection it is neither temporary nor a timeout; for an expired dial or client
  timeout its \<open>Timeout()\<close> is true.
\<close>

definition refused :: attempt where
  "refused = \<lparr>att_resp = None, att_err = Some (NetError False False)\<rparr>"

definition timed_out :: attempt where
  "timed_out = \<lparr>att_resp = None, att_err = Some (NetError False True)\<rparr>"

definition backend_refused_then_200 :: "nat \<Rightarrow> attempt" where
  "backend_refused_then_200 n = (if n < 1 then refused else answers 200)"

definition backend_timeout_twice :: "nat \<Rightarrow> attempt" where
  "backend_timeout_twice n = (if n < 2 then timed_out else answers 200)"

section \<open>Server-sent events (transport package)\<close>

text \<open>
  \<open>strings.TrimSpace\<close> removes leading and trailing white space as \<open>unicode.IsSpace\<close>
  defines it. \<open>white_space\<close> lists the UTF-8 encodings of these code points: the six of
  ASCII, U+0085, U+00A0, U+1680, U+2000 to U+200A, U+2028, U+2029, U+202F, U+205F and
  U+3000. Decoding a rune at the start of a string, or the last rune at its end, yields one
  of them exactly when the string starts, or ends, with one of these byte sequences.
  \<open>strip_leading tokens s\<close> removes leading tokens from \<open>s\<close> as long as there is one.
\<close>

definition white_space :: "string list" where
  "white_space =
     [[CHR 0x09], [CHR 0x0A], [CHR 0x0B], [CHR 0x0C], [CHR 0x0D], [CHR 0x20],
      [CHR 0xC2, CHR 0x85], [CHR 0xC2, CHR 0xA0],
      [CHR 0xE1, CHR 0x9A, CHR 0x80],
      [CHR 0xE2, CHR 0x80, CHR 0x80], [CHR 0xE2, CHR 0x80, CHR 0x81],
      [CHR 0xE2, CHR 0x80, CHR 0x82], [CHR 0xE2, CHR 0x80, CHR 0x83],
      [CHR 0xE2, CHR 0x80, CHR 0x84], [CHR 0xE2, CHR 0x80, CHR 0x85],
      [CHR 0xE2, CHR 0x80, CHR 0x86], [CHR 0xE2, CHR 0x80, CHR 0x87],
      [CHR 0xE2, CHR 0x80, CHR 0x88], [CHR 0xE2, CHR 0x80, CHR 0x89],
      [CHR 0xE2, CHR 0x80, CHR 0x8A],
      [CHR 0xE2, CHR 0x80, CHR 0xA8], [CHR 0xE2, CHR 0x80, CHR 0xA9],
      [CHR 0xE2, CHR 0x80, CHR 0xAF], [CHR 0xE2, CHR 0x81, CHR 0x9F],
      [CHR 0xE3, CHR 0x80, CHR 0x80]]"

function strip_leading :: "string list \<Rightarrow> string \<Rightarrow> string" where
  "strip_leading tokens s =
     (case find (\<lambda>t. t \<noteq> [] \<and> HasPrefix s t) tokens of
        None \<Rightarrow> s
      | Some t \<Rightarrow> strip_leading tokens (drop (length t) s))"
  by pat_completeness auto
termination
proof (relation "measure (\<lambda>(tokens, s). length s)")
  show "wf (measure (\<lambda>(tokens, s). length s))" by simp
next
  fix tokens :: "string list" and s t :: string
  assume "find (\<lambda>t. t \<noteq> [] \<and> HasPrefix s t) tokens = Some t"
  then have t: "t \<noteq> []" "HasPrefix s t" by (auto simp: find_Some_iff)
  have "HasPrefix a b \<Longrightarrow> b \<noteq> [] \<Longrightarrow> a \<noteq> []" for a b :: string
    by (cases a; cases b) auto
  with t have "s \<noteq> []" by blast
  with t(1) show "((tokens, drop (length t) s), (tokens, s)) \<in> measure (\<lambda>(tokens, s). length s)"
    by simp
qed

declare strip_leading.simps [simp del]

definition TrimSpace :: "string \<Rightarrow> string" where
  "TrimSpace s = rev (strip_leading (map rev white_space) (rev (strip_leading white_space s)))"

definition TrimPrefix :: "string \<Rightarrow> string \<Rightarrow> string" where
  "TrimPrefix s prefix = (if HasPrefix s prefix then drop (length prefix) s else s)"

text \<open>
  A parsed event (\<open>transport.StreamEvent\<close>). Its \<open>Retry\<close> field is set by \<open>retry:\<close> lines
  and read by nothing in the modelled code; the field is left out, and such a line leaves
  the event as it is.
\<close>

record SSEEvent =
  sse_Event :: string
  sse_Data :: string
  sse_ID :: string

fun parseEvent_loop :: "string list \<Rightarrow> SSEEvent \<Rightarrow> SSEEvent" where
  "parseEvent_loop [] event = event"
| "parseEvent_loop (line # rest) event =
     (if HasPrefix line ''data: '' then
        (let data = TrimPrefix line ''data: '' in
         if sse_Data event = '''' then parseEvent_loop rest (event\<lparr>sse_Data := data\<rparr>)
         else parseEvent_loop rest (event\<lparr>sse_Data := sse_Data event @ [CHR 0x0A] @ data\<rparr>))
      else if HasPrefix line ''event: '' then
        parseEvent_loop rest (event\<lparr>sse_Event := TrimPrefix line ''event: ''\<rparr>)
      else if HasPrefix line ''id: '' then
        parseEvent_loop rest (event\<lparr>sse_ID := TrimPrefix line ''id: ''\<rparr>)
      else parseEvent_loop rest event)"

definition parseEvent :: "string list \<Rightarrow> SSEEvent" where
  "parseEvent lines = parseEvent_loop lines \<lparr>sse_Event = '''', sse_Data = '''', sse_ID = ''''\<rparr>"

text \<open>
  \<open>processStream\<close>, on the lines that the scanner yields, for a run in which the context
  is not cancelled and the scanner reports no error: the events sent to the event channel,
  in order. \<open>lines\<close> holds the lines of the event being collected.
\<close>

definition emit :: "string list \<Rightarrow> SSEEvent list" where
  "emit lines =
     (let event = parseEvent lines in
      if sse_Data event \<noteq> '''' \<or> sse_Event event \<noteq> '''' then [event] else [])"

fun processStream_loop :: "string list \<Rightarrow> string list \<Rightarrow> SSEEvent list" where
  "processStream_loop [] lines = (if length lines > 0 then emit lines else [])"
| "processStream_loop (scanned # rest) lines =
     (let line = TrimSpace scanned in
      if line = '''' then
        (if length lines > 0 then emit lines @ processStream_loop rest []
         else processStream_loop rest lines)
      else processStream_loop rest (lines @ [line]))"

definition processStream :: "string list \<Rightarrow> SSEEvent list" where
  "processStream scanned = processStream_loop scanned []"

text \<open>
  \<open>processStream\<close> runs in its own goroutine and talks to the reader through three
  channels: the event channel, the error channel and the done channel. A channel is the
  list of values buffered in it and whether it has been closed. \<open>ctx_err\<close> is \<open>ctx.Err()\<close>
  of the reader's context, \<open>None\<close> while the context is live.
\<close>

record stream_channels =
  eventChan :: "SSEEvent list"
  eventChan_closed :: bool
  errorChan :: "error list"
  errorChan_closed :: bool
  doneChan :: "bool list"
  doneChan_closed :: bool
  ctx_err :: "error option"

definition NewStreamError :: "string \<Rightarrow> string \<Rightarrow> string \<Rightarrow> StreamError" where
  "NewStreamError errType code message =
     \<lparr>serr_Type = errType, serr_Code = code, serr_Message = message\<rparr>"

text \<open>
  The channels while \<open>processStream\<close> is still waiting for input, having sent the events
  of the lines scanned so far; and the channels once it has returned at the end of the
  body: it has sent the events, the scan error if there is one (\<open>scanErr\<close> is its text),
  and \<open>true\<close> on the done channel, and its deferred function has closed all three channels.
  (The event channel buffers 100 events, so with no more than 100 events \<open>processStream\<close>
  gets there without any help of the reader.)
\<close>

definition processStream_waiting :: "string list \<Rightarrow> stream_channels" where
  "processStream_waiting scanned =
     \<lparr>eventChan = processStream scanned, eventChan_closed = False,
      errorChan = [], errorChan_closed = False,
      doneChan = [], doneChan_closed = False, ctx_err = None\<rparr>"

definition processStream_returned :: "string list \<Rightarrow> string option \<Rightarrow> stream_channels" where
  "processStream_returned scanned scanErr =
     \<lparr>eventChan = processStream scanned, eventChan_closed = True,
      errorChan =
        (case scanErr of
           None \<Rightarrow> []
         | Some msg \<Rightarrow>
             [StreamErr (NewStreamError ''api_error'' ''stream_error''
                (''stream scan error: '' @ msg))]),
      errorChan_closed = True,
      doneChan = [True], doneChan_closed = True, ctx_err = None\<rparr>"

text \<open>
  The \<open>select\<close> of \<open>JSONStreamReader.Read\<close> has four cases. A case can be taken when its
  channel has a value buffered or is closed (the context case: when the context is done);
  among the cases that can be taken Go chooses one at random.
\<close>

datatype select_case = CaseCtxDone | CaseEvent | CaseError | CaseDone

fun ready :: "stream_channels \<Rightarrow> select_case \<Rightarrow> bool" where
  "ready ch CaseCtxDone = (ctx_err ch \<noteq> None)"
| "ready ch CaseEvent = (eventChan ch \<noteq> [] \<or> eventChan_closed ch)"
| "ready ch CaseError = (errorChan ch \<noteq> [] \<or> errorChan_closed ch)"
| "ready ch CaseDone = (doneChan ch \<noteq> [] \<or> doneChan_closed ch)"

text \<open>What \<open>Read\<close> returns: \<open>(data, nil)\<close>, \<open>(nil, err)\<close>, or \<open>(nil, nil)\<close>.\<close>

datatype 'j read_result = Value 'j | Failed error | Nothing

text \<open>
  \<open>JSONStreamReader.Read\<close>. \<open>choices\<close> is the case that the \<open>select\<close> takes in each
  round of the \<open>for\<close> loop, in order; the result is \<open>None\<close> if a choice names a case that
  cannot be taken or if the choices end before \<open>Read\<close> returns. A receive from a closed and
  empty channel yields the zero value: an event with empty data (the loop goes on), a nil
  error (\<open>Read\<close> returns \<open>(nil, nil)\<close>). \<open>unmarshal\<close> is \<open>json.Unmarshal\<close> into an
  \<open>interface{}\<close>: the decoded value, or the text of its error. Steps of \<open>processStream\<close>
  during the call are not part of the model: the channels change by the receives only.
\<close>

fun Read ::
  "(string \<Rightarrow> string + 'j) \<Rightarrow> stream_channels \<Rightarrow> select_case list
     \<Rightarrow> ('j read_result \<times> stream_channels) option" where
  "Read unmarshal ch [] = None"
| "Read unmarshal ch (choice # choices) =
     (if \<not> ready ch choice then None
      else
        (case choice of
           CaseCtxDone \<Rightarrow>
             (case ctx_err ch of None \<Rightarrow> None | Some err \<Rightarrow> Some (Failed err, ch))
         | CaseEvent \<Rightarrow>
             (case eventChan ch of
                [] \<Rightarrow> Read unmarshal ch choices
              | event # events \<Rightarrow>
                  if sse_Data event = '''' then
                    Read unmarshal (ch\<lparr>eventChan := events\<rparr>) choices
                  else if sse_Data event = ''[DONE]'' then
                    Some (Failed EOF, ch\<lparr>eventChan := events\<rparr>)
                  else
                    (case unmarshal (sse_Data event) of
                       Inl msg \<Rightarrow>
                         Some (Failed (StreamErr (NewStreamError ''api_error'' ''parse_error''
                                 (''failed to parse JSON: '' @ msg))),
                               ch\<lparr>eventChan := events\<rparr>)
                     | Inr data \<Rightarrow> Some (Value data, ch\<lparr>eventChan := events\<rparr>)))
         | CaseError \<Rightarrow>
             (case errorChan ch of
                [] \<Rightarrow> Some (Nothing, ch)
              | err # errs \<Rightarrow> Some (Failed err, ch\<lparr>errorChan := errs\<rparr>))
         | CaseDone \<Rightarrow>
             (case doneChan ch of
                [] \<Rightarrow> Some (Failed EOF, ch)
              | d # ds \<Rightarrow> Some (Failed EOF, ch\<lparr>doneChan := ds\<rparr>))))"

text \<open>
  \<open>ChatStreamProcessor\<close> over the adapter over the reader. \<open>streamReaderAdapter.Next\<close>
  passes the error of \<open>Read\<close> on; otherwise it re-encodes the data (which cannot fail) as
  the data of an event, so the consumer gets the value, or JSON \<open>null\<close> (\<open>None\<close>) when
  \<open>Read\<close> returned \<open>(nil, nil)\<close>. \<open>ChatStreamProcessor.Next\<close> returns \<open>io.EOF\<close> once it is
  finished, and becomes finished at the first error of the stream, \<open>io.EOF\<close> included. The
  chunks that the processor records on the side are left out.
\<close>

record ChatStreamProcessor =
  csp_stream :: stream_channels
  csp_finished :: bool
  csp_err :: "error option"

definition NewChatStreamProcessor :: "stream_channels \<Rightarrow> ChatStreamProcessor" where
  "NewChatStreamProcessor stream = \<lparr>csp_stream = stream, csp_finished = False, csp_err = None\<rparr>"

definition Next ::
  "(string \<Rightarrow> string + 'j) \<Rightarrow> ChatStreamProcessor \<Rightarrow> select_case list
     \<Rightarrow> ((error + 'j option) \<times> ChatStreamProcessor) option" where
  "Next unmarshal p choices =
     (if csp_finished p then Some (Inl EOF, p)
      else
        (case Read unmarshal (csp_stream p) choices of
           None \<Rightarrow> None
         | Some (Failed err, ch) \<Rightarrow>
             Some (Inl err, p\<lparr>csp_stream := ch, csp_err := Some err, csp_finished := True\<rparr>)
         | Some (Value data, ch) \<Rightarrow> Some (Inr (Some data), p\<lparr>csp_stream := ch\<rparr>)
         | Some (Nothing, ch) \<Rightarrow> Some (Inr None, p\<lparr>csp_stream := ch\<rparr>)))"

text \<open>
  A consumer that calls \<open>Next\<close> until it returns an error, as the loop of
  \<open>handleStreamMessage\<close> does: what it is handed, in order, the error that ended the loop,
  and the processor afterwards. \<open>schedule\<close> gives the choices of the \<open>select\<close> for each call
  in turn; the result is \<open>None\<close> if the schedule cannot be followed or ends before the loop
  does.
\<close>

fun consume ::
  "(string \<Rightarrow> string + 'j) \<Rightarrow> ChatStreamProcessor \<Rightarrow> select_case list list
     \<Rightarrow> ('j option list \<times> error \<times> ChatStreamProcessor) option" where
  "consume unmarshal p [] = None"
| "consume unmarshal p (choices # schedule) =
     (case Next unmarshal p choices of
        None \<Rightarrow> None
      | Some (Inl err, p') \<Rightarrow> Some ([], err, p')
      | Some (Inr data, p') \<Rightarrow>
          (case consume unmarshal p' schedule of
             None \<Rightarrow> None
           | Some (delivered, err, p'') \<Rightarrow> Some (data # delivered, err, p'')))"

text \<open>What the consumer was handed and how the loop ended.\<close>

definition outcome ::
  "('j option list \<times> error \<times> ChatStreamProcessor) option \<Rightarrow> ('j option list \<times> error) option" where
  "outcome r = map_option (\<lambda>(delivered, err, p). (delivered, err)) r"

text \<open>A toy decoder for examples: it accepts exactly the text \<open>{}\<close>.\<close>

definition unmarshal_empty_object :: "string \<Rightarrow> string + unit" where
  "unmarshal_empty_object s = (if s = ''{}'' then Inr () else Inl ''invalid character'')"

text \<open>A complete response body: one event, then the sentinel.\<close>

definition body_one_then_done :: "string list" where
  "body_one_then_done = [''data: {}'', '''', ''data: [DONE]'', '''']"

text \<open>The values that a consumer receives from a list of events none of which is the
  sentinel and all of which decode: one per event with non-empty data.\<close>

definition delivered_values :: "(string \<Rightarrow> string + 'j) \<Rightarrow> SSEEvent list \<Rightarrow> 'j list" where
  "delivered_values unmarshal events =
     concat (map (\<lambda>event.
       if sse_Data event = '''' then []
       else (case unmarshal (sse_Data event) of Inl msg \<Rightarrow> [] | Inr data \<Rightarrow> [data])) events)"

text \<open>\<open>processStream\<close> is running: nothing is closed, no error and no done value has been
  sent, and the context is live.\<close>

definition running :: "stream_channels \<Rightarrow> bool" where
  "running ch \<longleftrightarrow>
     \<not> eventChan_closed ch \<and> \<not> errorChan_closed ch \<and> \<not> doneChan_closed ch
     \<and> errorChan ch = [] \<and> doneChan ch = [] \<and> ctx_err ch = None"

section \<open>Facts about strings\<close>

lemmas eval_ToLower = ToLower_def ToLower_char_def Let_def char_of_eq_iff





section \<open>Facts about the alias table\<close>

lemma iteration_order_set: "iteration_order order \<Longrightarrow> set order = set modelMapping"
  unfolding iteration_order_def by (rule mset_eq_setD)

lemma iteration_order_modelMapping: "iteration_order modelMapping"
  by (simp add: iteration_order_def)





lemma fuzzy_match_None_iff:
  "fuzzy_match order s = None \<longleftrightarrow> (\<forall>(p, m) \<in> set order. \<not> Contains s (ToLower p))"
  by (induction order s rule: fuzzy_match.induct) auto

lemma fuzzy_match_Some:
  "fuzzy_match order s = Some m \<Longrightarrow> \<exists>p. (p, m) \<in> set order \<and> Contains s (ToLower p)"
  by (induction order s rule: fuzzy_match.induct) (auto split: if_splits)



text \<open>Without a direct entry, a name whose lower-case form contains the lower-case form
  of some key is mapped to the target of such a key (the one visited first).\<close>

lemma mapModel_fuzzy:
  assumes "map_of modelMapping s = None" and "iteration_order order"
    and "(p, m) \<in> set modelMapping" and "Contains (ToLower s) (ToLower p)"
  shows "\<exists>p' m'. (p', m') \<in> set modelMapping \<and> Contains (ToLower s) (ToLower p')
           \<and> mapModel order s = m'"
proof -
  from assms(2) have eq: "set order = set modelMapping" by (rule iteration_order_set)
  with assms(3,4) have "fuzzy_match order (ToLower s) \<noteq> None"
    by (auto simp: fuzzy_match_None_iff)
  then obtain m' where m': "fuzzy_match order (ToLower s) = Some m'" by auto
  from fuzzy_match_Some[OF m'] eq obtain p' where
    "(p', m') \<in> set modelMapping" "Contains (ToLower s) (ToLower p')" by auto
  moreover from assms(1) m' have "mapModel order s = m'" by (simp add: mapModel_def)
  ultimately show ?thesis by blast
qed

text \<open>Without a direct entry and without a matching pattern, the result is the lower-case
  form of the name.\<close>

lemma mapModel_passthrough:
  assumes "map_of modelMapping s = None" and "fuzzy_match order (ToLower s) = None"
  shows "mapModel order s = ToLower s"
  using assms by (simp add: mapModel_def)



section \<open>Model aliases: results\<close>








text \<open>
  C5. When neither the direct lookup nor any pattern matches, \<open>mapModel\<close> returns the
  lower-case form of its argument: the unrecognised name \<open>GPT-Unknown-9000\<close> resolves to
  \<open>gpt-unknown-9000\<close>, not to itself, whatever order the map iteration takes.
\<close>

theorem mapModel_unrecognised_lowered:
  assumes "iteration_order order"
  shows "mapModel order ''GPT-Unknown-9000'' = ''gpt-unknown-9000''
         \<and> mapModel order ''GPT-Unknown-9000'' \<noteq> ''GPT-Unknown-9000''"
proof -
  have low: "ToLower ''GPT-Unknown-9000'' = ''gpt-unknown-9000''"
    by (simp add: eval_ToLower)
  have "list_all (\<lambda>(p, m). \<not> Contains ''gpt-unknown-9000'' (ToLower p)) modelMapping"
    by (simp add: modelMapping_def eval_ToLower)
  then have "fuzzy_match order ''gpt-unknown-9000'' = None"
    using iteration_order_set[OF assms] by (auto simp: fuzzy_match_None_iff list_all_iff)
  moreover have "map_of modelMapping ''GPT-Unknown-9000'' = None"
    by (simp add: modelMapping_def)
  ultimately have "mapModel order ''GPT-Unknown-9000'' = ''gpt-unknown-9000''"
    by (simp add: mapModel_def low del: fuzzy_match.simps)
  then show ?thesis by simp
qed

theorem mapModel_unrecognised_lowered_witness:
  "iteration_order modelMapping
   \<and> mapModel modelMapping ''GPT-Unknown-9000'' = ''gpt-unknown-9000''
   \<and> mapModel modelMapping ''GPT-Unknown-9000'' \<noteq> ''GPT-Unknown-9000''"
  using mapModel_unrecognised_lowered[of modelMapping]
  by (simp add: iteration_order_def)

section \<open>Request validation: facts\<close>

lemma detail_Type_NewInvalidRequestError [simp]:
  "detail_Type (cerr_ErrorDetail (NewInvalidRequestError m)) = ''invalid_request_error''"
  by (simp add: NewInvalidRequestError_def NewClaudeError_def)

lemma detail_Message_NewInvalidRequestError [simp]:
  "detail_Message (cerr_ErrorDetail (NewInvalidRequestError m)) = m"
  by (simp add: NewInvalidRequestError_def NewClaudeError_def)

lemma validateContent_None_iff: "validateContent c i j = None \<longleftrightarrow> content_ok c"
  by (auto simp: validateContent_def content_ok_def)

lemma validateContent_Some: "validateContent c i j = Some e \<Longrightarrow> is_InvalidRequest e"
  by (auto simp: validateContent_def split: if_splits)

lemma validateContent_Some_not_ok: "validateContent c i j = Some e \<Longrightarrow> \<not> content_ok c"
  using validateContent_None_iff[of c i j] by simp

lemma validateContent_loop_None_iff:
  "validateContent_loop cs i j = None \<longleftrightarrow> (\<forall>c \<in> set cs. content_ok c)"
  by (induction cs arbitrary: j)
     (auto simp: validateContent_None_iff split: option.splits dest: validateContent_Some_not_ok)

lemma validateContent_loop_Some:
  "validateContent_loop cs i j = Some e \<Longrightarrow> is_InvalidRequest e"
  by (induction cs arbitrary: j) (auto simp: validateContent_Some split: option.splits)

lemma validateMessage_None_iff: "validateMessage m i = None \<longleftrightarrow> message_ok m"
  by (auto simp: validateMessage_def message_ok_def validateContent_loop_None_iff)

lemma validateMessage_Some: "validateMessage m i = Some e \<Longrightarrow> is_InvalidRequest e"
  by (auto simp: validateMessage_def validateContent_loop_Some split: if_splits)

lemma validateMessage_Some_not_ok: "validateMessage m i = Some e \<Longrightarrow> \<not> message_ok m"
  using validateMessage_None_iff[of m i] by simp

lemma validateMessage_loop_None_iff:
  "validateMessage_loop ms i = None \<longleftrightarrow> (\<forall>m \<in> set ms. message_ok m)"
  by (induction ms arbitrary: i)
     (auto simp: validateMessage_None_iff split: option.splits dest: validateMessage_Some_not_ok)

lemma validateMessage_loop_Some:
  "validateMessage_loop ms i = Some e \<Longrightarrow> is_InvalidRequest e"
  by (induction ms arbitrary: i) (auto simp: validateMessage_Some split: option.splits)

lemma ValidateRequest_Some: "ValidateRequest r = Some e \<Longrightarrow> is_InvalidRequest e"
  by (auto simp: ValidateRequest_def validateMessage_loop_Some split: option.splits if_splits)

lemma not_content_ok_iff:
  "\<not> content_ok c \<longleftrightarrow>
     (item_Type c = ContentTypeText \<and> item_Text c = '''')
     \<or> (item_Type c = ContentTypeImage \<and> item_Source c = None \<and> item_ImageURL c = '''')
     \<or> (item_Type c \<noteq> ContentTypeText \<and> item_Type c \<noteq> ContentTypeImage)"
  by (auto simp: content_ok_def)

lemma not_message_ok_iff:
  "\<not> message_ok m \<longleftrightarrow>
     (msg_Role m \<noteq> RoleUser \<and> msg_Role m \<noteq> RoleAssistant)
     \<or> msg_Content m = []
     \<or> (\<exists>c \<in> set (msg_Content m). item_Type c = ContentTypeText \<and> item_Text c = '''')
     \<or> (\<exists>c \<in> set (msg_Content m).
           item_Type c = ContentTypeImage \<and> item_Source c = None \<and> item_ImageURL c = '''')
     \<or> (\<exists>c \<in> set (msg_Content m).
           item_Type c \<noteq> ContentTypeText \<and> item_Type c \<noteq> ContentTypeImage)"
proof -
  have "\<not> message_ok m \<longleftrightarrow>
     (msg_Role m \<noteq> RoleUser \<and> msg_Role m \<noteq> RoleAssistant)
     \<or> msg_Content m = [] \<or> (\<exists>c \<in> set (msg_Content m). \<not> content_ok c)"
    unfolding message_ok_def by blast
  then show ?thesis
    by (simp only: not_content_ok_iff bex_disj_distrib)
qed

lemma messages_ok_iff:
  "(\<forall>m \<in> set ms. message_ok m) \<longleftrightarrow>
     \<not> ((\<exists>m \<in> set ms. msg_Role m \<noteq> RoleUser \<and> msg_Role m \<noteq> RoleAssistant)
     \<or> (\<exists>m \<in> set ms. msg_Content m = [])
     \<or> (\<exists>m \<in> set ms. \<exists>c \<in> set (msg_Content m).
             item_Type c = ContentTypeText \<and> item_Text c = '''')
     \<or> (\<exists>m \<in> set ms. \<exists>c \<in> set (msg_Content m).
             item_Type c = ContentTypeImage \<and> item_Source c = None \<and> item_ImageURL c = '''')
     \<or> (\<exists>m \<in> set ms. \<exists>c \<in> set (msg_Content m).
             item_Type c \<noteq> ContentTypeText \<and> item_Type c \<noteq> ContentTypeImage))"
proof -
  have "(\<forall>m \<in> set ms. message_ok m) \<longleftrightarrow> \<not> (\<exists>m \<in> set ms. \<not> message_ok m)" by blast
  then show ?thesis
    by (simp only: not_message_ok_iff bex_disj_distrib)
qed

lemma ValidateRequest_None_iff:
  "ValidateRequest (Some r) = None \<longleftrightarrow> \<not> spec_invalid r \<and> \<not> extra_invalid r"
proof -
  have "ValidateRequest (Some r) = None \<longleftrightarrow>
          req_Model r \<noteq> '''' \<and> 0 < req_MaxTokens r \<and> req_MaxTokens r \<le> 200000
          \<and> req_Messages r \<noteq> []
          \<and> 0 \<le> req_Temperature r \<and> req_Temperature r \<le> 1
          \<and> 0 \<le> req_TopP r \<and> req_TopP r \<le> 1 \<and> 0 \<le> req_TopK r
          \<and> (\<forall>m \<in> set (req_Messages r). message_ok m)"
    by (auto simp: ValidateRequest_def validateMessage_loop_None_iff)
  also have "\<dots> \<longleftrightarrow> \<not> spec_invalid r \<and> \<not> extra_invalid r"
    unfolding messages_ok_iff spec_invalid_def extra_invalid_def
    by (simp only: de_Morgan_disj not_le not_less conj_ac)
  finally show ?thesis .
qed

section \<open>Request conversion: facts\<close>

lemma Validate_messages_None:
  "\<forall>m \<in> set ms. message_ok m \<Longrightarrow> Validate_messages ms i = None"
  by (induction ms arbitrary: i) (auto simp: message_ok_def)

lemma convertContent_loop_ok:
  "\<forall>c \<in> set cs. content_ok c \<Longrightarrow> \<exists>out. convertContent_loop cs acc = Inr out"
  by (induction cs arbitrary: acc) (auto simp: content_ok_def)

lemma convertContent_ok:
  assumes "cs \<noteq> []" and "\<forall>c \<in> set cs. content_ok c"
  shows "\<exists>out. convertContent cs = Inr out"
proof -
  from convertContent_loop_ok[OF assms(2)] obtain out where
    "convertContent_loop cs [] = Inr out" by blast
  with assms(1) show ?thesis by (simp add: convertContent_def)
qed

lemma convertMessage_ok: "message_ok m \<Longrightarrow> \<exists>out. convertMessage m = Inr out"
proof -
  assume ok: "message_ok m"
  then obtain c where "convertContent (msg_Content m) = Inr c"
    using convertContent_ok[of "msg_Content m"] by (auto simp: message_ok_def)
  with ok show ?thesis by (auto simp: convertMessage_def message_ok_def Let_def)
qed

lemma convertMessages_loop_ok:
  "\<forall>m \<in> set ms. message_ok m \<Longrightarrow> \<exists>out. convertMessages_loop ms acc = Inr out"
proof (induction ms arbitrary: acc)
  case Nil
  then show ?case by simp
next
  case (Cons m ms)
  then obtain cm where "convertMessage m = Inr cm" using convertMessage_ok[of m] by auto
  with Cons show ?case by simp
qed

lemma ConvertRequest_after_ValidateRequest:
  assumes "ValidateRequest (Some r) = None"
  shows "\<exists>out. ConvertRequest order (Some r) = Inr out"
proof -
  from assms have ok: "\<forall>m \<in> set (req_Messages r). message_ok m"
    and basics: "req_Model r \<noteq> ''''" "0 < req_MaxTokens r" "req_Messages r \<noteq> []"
    by (auto simp: ValidateRequest_def validateMessage_loop_None_iff split: if_splits)
  from basics Validate_messages_None[OF ok] have v: "Validate r = None"
    by (simp add: Validate_def)
  from convertMessages_loop_ok[OF ok] obtain ms where
    "convertMessages (req_Messages r) (req_System r) = Inr ms"
    unfolding convertMessages_def by blast
  with v show ?thesis by (simp add: ConvertRequest_def)
qed

section \<open>Request translation: results\<close>

text \<open>
  C4, as the code has it. Request translation (\<open>ValidateRequest\<close>, then
  \<open>ConvertRequest\<close>) fails with an InvalidRequest error exactly when one of the conditions
  listed by the specification holds, or \<open>top_k\<close> is negative, or some content item has a
  type other than text and image. For every other request translation succeeds.
\<close>

theorem translateRequest_fails_iff:
  "((\<exists>e. translateRequest order r = Inl e \<and> is_InvalidRequest e)
      \<longleftrightarrow> spec_invalid r \<or> extra_invalid r)
   \<and> (\<not> spec_invalid r \<and> \<not> extra_invalid r \<longrightarrow> (\<exists>out. translateRequest order r = Inr out))"
proof (cases "ValidateRequest (Some r)")
  case None
  from ConvertRequest_after_ValidateRequest[OF None] obtain out where
    "ConvertRequest order (Some r) = Inr out" by blast
  with None have "translateRequest order r = Inr out" by (simp add: translateRequest_def)
  moreover from None have "\<not> spec_invalid r \<and> \<not> extra_invalid r"
    by (simp add: ValidateRequest_None_iff)
  ultimately show ?thesis by auto
next
  case (Some e)
  then have "translateRequest order r = Inl e" by (simp add: translateRequest_def)
  moreover from Some have "is_InvalidRequest e" by (rule ValidateRequest_Some)
  moreover from Some have "spec_invalid r \<or> extra_invalid r"
    using ValidateRequest_None_iff[of r] by auto
  ultimately show ?thesis by auto
qed

theorem translateRequest_fails_iff_witness:
  "\<not> spec_invalid request_hi \<and> \<not> extra_invalid request_hi
   \<and> (\<exists>out. translateRequest modelMapping request_hi = Inr out)"
  using translateRequest_fails_iff[of modelMapping request_hi]
  by (simp add: spec_invalid_def extra_invalid_def request_hi_def)

text \<open>
  The claim as stated fails: the request \<open>request_negative_top_k\<close> violates none of the
  listed conditions, yet translation rejects it with an InvalidRequest error.
\<close>

theorem translateRequest_top_k_counterexample:
  "\<not> spec_invalid request_negative_top_k
   \<and> translateRequest modelMapping request_negative_top_k
       = Inl (ClaudeErr (NewInvalidRequestError ''top_k must be non-negative''))
   \<and> is_InvalidRequest (ClaudeErr (NewInvalidRequestError ''top_k must be non-negative''))"
  by (simp add: spec_invalid_def request_negative_top_k_def request_hi_def
        translateRequest_def ValidateRequest_def)

section \<open>Images with an inline source only\<close>

lemma convertContent_loop_skip:
  assumes "item_Type item = ContentTypeImage" and "item_ImageURL item = ''''"
  shows "convertContent_loop (xs @ item # ys) acc = convertContent_loop (xs @ ys) acc"
  using assms by (induction xs arbitrary: acc) auto

lemma convertContent_uses_loop:
  assumes "item_Type item = ContentTypeImage"
  shows "convertContent (xs @ item # ys) =
           (case convertContent_loop (xs @ item # ys) [] of
              Inl err \<Rightarrow> Inl err
            | Inr messageContents \<Rightarrow> Inr (ContentParts messageContents))"
proof (cases xs)
  case Nil
  with assms show ?thesis by (simp add: convertContent_def)
next
  case (Cons x xs')
  then show ?thesis by (simp add: convertContent_def)
qed

text \<open>
  C9. An image item with an empty \<open>ImageURL\<close> and a non-nil inline \<open>Source\<close> passes
  validation, and a list of items is accepted or rejected as if the item were not there;
  conversion drops the item: the backend content is the one built from the other items.
  A message whose only item is such an image is accepted and converts, without error, to
  an empty backend content list.
\<close>

theorem inline_image_dropped:
  assumes "item_Type item = ContentTypeImage" and "item_ImageURL item = ''''"
    and "item_Source item = Some src"
  shows "validateContent item i j = None
         \<and> (validateContent_loop (xs @ item # ys) i 0 = None
              \<longleftrightarrow> validateContent_loop (xs @ ys) i 0 = None)
         \<and> convertContent (xs @ item # ys) =
             (case convertContent_loop (xs @ ys) [] of
                Inl err \<Rightarrow> Inl err
              | Inr messageContents \<Rightarrow> Inr (ContentParts messageContents))
         \<and> validateMessage \<lparr>msg_Role = RoleUser, msg_Content = [item]\<rparr> i = None
         \<and> convertMessage \<lparr>msg_Role = RoleUser, msg_Content = [item]\<rparr>
             = Inr \<lparr>cm_Role = ChatRoleUser, cm_Content = ContentParts []\<rparr>"
proof -
  from assms have ok: "content_ok item" by (simp add: content_ok_def)
  then have v: "validateContent item i j = None" by (simp add: validateContent_None_iff)
  from ok have l: "validateContent_loop (xs @ item # ys) i 0 = None
              \<longleftrightarrow> validateContent_loop (xs @ ys) i 0 = None"
    by (auto simp: validateContent_loop_None_iff)
  have c: "convertContent (xs @ item # ys) =
             (case convertContent_loop (xs @ ys) [] of
                Inl err \<Rightarrow> Inl err
              | Inr messageContents \<Rightarrow> Inr (ContentParts messageContents))" for xs ys
    using convertContent_uses_loop[OF assms(1)] convertContent_loop_skip[OF assms(1,2)]
    by simp
  from ok have m: "validateMessage \<lparr>msg_Role = RoleUser, msg_Content = [item]\<rparr> i = None"
    by (simp add: validateMessage_None_iff message_ok_def)
  from c[of "[]" "[]"] have "convertContent [item] = Inr (ContentParts [])" by simp
  then have cm: "convertMessage \<lparr>msg_Role = RoleUser, msg_Content = [item]\<rparr>
             = Inr \<lparr>cm_Role = ChatRoleUser, cm_Content = ContentParts []\<rparr>"
    by (simp add: convertMessage_def)
  from v l c m cm show ?thesis by blast
qed

theorem inline_image_dropped_witness:
  "item_Type inline_image = ContentTypeImage \<and> item_ImageURL inline_image = ''''
   \<and> item_Source inline_image \<noteq> None
   \<and> validateContent inline_image 0 1 = None
   \<and> convertContent [text_look, inline_image]
       = Inr (ContentParts [\<lparr>mc_Type = ChatMessageTypeText, mc_Text = ''look'',
                              mc_ImageURL = '''', mc_Detail = ''''\<rparr>])
   \<and> convertMessage \<lparr>msg_Role = RoleUser, msg_Content = [inline_image]\<rparr>
       = Inr \<lparr>cm_Role = ChatRoleUser, cm_Content = ContentParts []\<rparr>"
proof -
  have h: "item_Type inline_image = ContentTypeImage" "item_ImageURL inline_image = ''''"
    "item_Source inline_image
       = Some \<lparr>img_Type = ''base64'', img_MediaType = ''image/png'', img_Data = ''iVBORw0KGgo=''\<rparr>"
    by (simp_all add: inline_image_def)
  from inline_image_dropped[OF h, of 0 1 "[text_look]" "[]"] h show ?thesis
    by (simp add: text_look_def)
qed

section \<open>Response translation: results\<close>

lemma convertContent_response_nonempty: "convertContent_response message \<noteq> []"
  by (simp add: convertContent_response_def Let_def)

lemma convertContent_response_cases:
  "convertContent_response message =
     (if collect_content message = []
      then [\<lparr>item_Type = ContentTypeText, item_Text = '''', item_Source = None,
              item_ImageURL = ''''\<rparr>]
      else collect_content message)"
  by (simp add: convertContent_response_def Let_def)

text \<open>
  C7. Whenever \<open>ConvertResponse\<close> succeeds, the content list of the client response is not
  empty: the response has a first choice, and the content is the list of representable
  items of its message or, if there is none, a single empty text block.
\<close>

theorem ConvertResponse_content_nonempty:
  assumes "ConvertResponse newAPIResp originalModel = Inr claudeResp"
  shows "cresp_Content claudeResp \<noteq> []
         \<and> (\<exists>r choice. newAPIResp = Some r \<and> GetFirstChoice r = Some choice
              \<and> cresp_Content claudeResp =
                  (if collect_content (choice_Message choice) = []
                   then [\<lparr>item_Type = ContentTypeText, item_Text = '''', item_Source = None,
                           item_ImageURL = ''''\<rparr>]
                   else collect_content (choice_Message choice)))"
proof -
  from assms obtain r where r: "newAPIResp = Some r"
    by (cases newAPIResp) (auto simp: ConvertResponse_def)
  with assms have noerr: "\<not> IsError r"
    by (auto simp: ConvertResponse_def split: if_splits)
  with assms r obtain choice where c: "GetFirstChoice r = Some choice"
    by (cases "GetFirstChoice r") (auto simp: ConvertResponse_def)
  from assms r noerr c have
    "cresp_Content claudeResp = convertContent_response (choice_Message choice)"
    by (auto simp: ConvertResponse_def)
  with r c show ?thesis
    using convertContent_response_nonempty[of "choice_Message choice"]
      convertContent_response_cases[of "choice_Message choice"]
    by auto
qed

theorem ConvertResponse_content_nonempty_witness:
  "ConvertResponse (Some null_content_response) ''claude-3-opus''
     = Inr \<lparr>cresp_ID = ''chatcmpl-7'', cresp_Type = ''message'', cresp_Role = RoleAssistant,
            cresp_Content = [\<lparr>item_Type = ContentTypeText, item_Text = '''',
                               item_Source = None, item_ImageURL = ''''\<rparr>],
            cresp_Model = ''claude-3-opus'', cresp_StopReason = StopReasonEndTurn,
            cresp_StopSequence = '''',
            cresp_Usage = \<lparr>cusage_InputTokens = 5, cusage_OutputTokens = 0\<rparr>\<rparr>
   \<and> cresp_Content \<lparr>cresp_ID = ''chatcmpl-7'', cresp_Type = ''message'',
            cresp_Role = RoleAssistant,
            cresp_Content = [\<lparr>item_Type = ContentTypeText, item_Text = '''',
                               item_Source = None, item_ImageURL = ''''\<rparr>],
            cresp_Model = ''claude-3-opus'', cresp_StopReason = StopReasonEndTurn,
            cresp_StopSequence = '''',
            cresp_Usage = \<lparr>cusage_InputTokens = 5, cusage_OutputTokens = 0\<rparr>\<rparr> \<noteq> []"
proof -
  have run: "ConvertResponse (Some null_content_response) ''claude-3-opus''
     = Inr \<lparr>cresp_ID = ''chatcmpl-7'', cresp_Type = ''message'', cresp_Role = RoleAssistant,
            cresp_Content = [\<lparr>item_Type = ContentTypeText, item_Text = '''',
                               item_Source = None, item_ImageURL = ''''\<rparr>],
            cresp_Model = ''claude-3-opus'', cresp_StopReason = StopReasonEndTurn,
            cresp_StopSequence = '''',
            cresp_Usage = \<lparr>cusage_InputTokens = 5, cusage_OutputTokens = 0\<rparr>\<rparr>"
    by (simp add: ConvertResponse_def null_content_response_def IsError_def GetFirstChoice_def
          convertContent_response_def collect_content_def GetTextContent_def
          mapStopReason_def stopReasonMapping_def)
  from ConvertResponse_content_nonempty[OF run] run show ?thesis by blast
qed

section \<open>The streaming handler: results\<close>







text \<open>The same for an event that does not decode in the middle of a stream: the events
  written end with the one error event, which carries the message of the decoder's
  error.\<close>

lemma stream_error_mid_stream:
  "map_sum id (filter (\<lambda>ev. ev_Event ev = ''error''))
     (handleStreamMessage True modelMapping (request_hi\<lparr>req_Stream := True\<rparr>)
        (Inr (delta_then_garbage, NextError EOF)) ''msg_1'')
   = Inr [\<lparr>ev_Type = EventError, ev_Event = ''error'',
           ev_Data = ErrorEvent EventError
             \<lparr>detail_Type = ''api_error'',
              detail_Message = ''unexpected end of JSON input''\<rparr>\<rparr>]"
  by (simp add: handleStreamMessage_def ConvertRequest_def Validate_def convertMessages_def
        convertMessage_def convertContent_def request_hi_def delta_then_garbage_def
        GenerateStreamEvents_def createMessageStartEvent_def createContentBlockStartEvent_def
        createPingEvent_def processStreamEvent_def ConvertStreamChunk_def data_event_def
        delta_chunk_def createContentDeltaEvent_def GetTextContent_def sendStreamError_def
        Let_def)

section \<open>The streaming handler on a chunk with a finish reason\<close>

lemmas eval_events =
  GenerateStreamEvents_def GenerateStreamEndEvents_def createMessageStartEvent_def
  createContentBlockStartEvent_def createPingEvent_def createContentDeltaEvent_def
  createContentBlockStopEvent_def createMessageDeltaEvent_def createMessageStopEvent_def
  sendStreamError_def processStreamEvent_def ConvertStreamChunk_def GetTextContent_def
  mapStopReason_def stopReasonMapping_def data_event_def delta_chunk_def Let_def

lemmas eval_ConvertRequest =
  ConvertRequest_def Validate_def convertMessages_def convertMessage_def convertContent_def
  request_hi_def

text \<open>
  C1. For the chunk sequence (delta \<open>Hi\<close>), (finish reason \<open>stop\<close>) followed by the
  regular end of the stream, the handler writes \<open>message_stop\<close> twice: once for the chunk
  with the finish reason, before \<open>content_block_stop\<close> and \<open>message_delta\<close>, and once more
  at the end.
\<close>

theorem finish_chunk_message_stop_twice:
  "map_sum id event_names
     (handleStreamMessage True modelMapping (request_hi\<lparr>req_Stream := True\<rparr>)
        (Inr (delta_then_stop, NextError EOF)) ''msg_1'')
   = Inr [''message_start'', ''content_block_start'', ''ping'', ''content_block_delta'',
          ''message_stop'', ''content_block_stop'', ''message_delta'', ''message_stop'']"
  by (simp add: handleStreamMessage_def eval_ConvertRequest delta_then_stop_def event_names_def
        eval_events)

text \<open>
  C3. For scenario C the events written from the loop on are: the deltas \<open>Hel\<close> and
  \<open>lo\<close>, a \<open>message_stop\<close> for the chunk with finish reason \<open>length\<close>, and then the end
  events with stop reason \<open>end_turn\<close>: the finish reason of the chunk is not carried into
  the \<open>message_delta\<close> event.
\<close>

theorem scenario_C_events:
  "stream_loop scenario_C (NextError EOF) =
     [\<lparr>ev_Type = EventContentBlockDelta, ev_Event = ''content_block_delta'',
       ev_Data = ContentBlockDeltaEvent EventContentBlockDelta 0 ContentTypeText ''Hel''\<rparr>,
      \<lparr>ev_Type = EventContentBlockDelta, ev_Event = ''content_block_delta'',
       ev_Data = ContentBlockDeltaEvent EventContentBlockDelta 0 ContentTypeText ''lo''\<rparr>,
      \<lparr>ev_Type = EventMessageStop, ev_Event = ''message_stop'',
       ev_Data = MessageStopEvent EventMessageStop\<rparr>,
      \<lparr>ev_Type = EventContentBlockStop, ev_Event = ''content_block_stop'',
       ev_Data = ContentBlockStopEvent EventContentBlockStop 0\<rparr>,
      \<lparr>ev_Type = EventMessageDelta, ev_Event = ''message_delta'',
       ev_Data = MessageDeltaEvent EventMessageDelta StopReasonEndTurn ''''
                   \<lparr>cusage_InputTokens = 0, cusage_OutputTokens = 0\<rparr>\<rparr>,
      \<lparr>ev_Type = EventMessageStop, ev_Event = ''message_stop'',
       ev_Data = MessageStopEvent EventMessageStop\<rparr>]"
  by (simp add: scenario_C_def eval_events)

text \<open>What the table would give for the finish reason of scenario C.\<close>

lemma mapStopReason_length: "mapStopReason FinishReasonLength = StopReasonMaxTokens"
  by (simp add: mapStopReason_def stopReasonMapping_def)

text \<open>In general: on a run of well-formed chunks that ends regularly, every chunk with a
  finish reason adds one \<open>message_stop\<close> to the one of the end events.\<close>

lemma stream_loop_message_stops:
  assumes "\<forall>c \<in> set chunks. chunk_Choices c \<noteq> []"
  shows "count_list (event_names (stream_loop (map data_event chunks) (NextError EOF)))
           ''message_stop''
         = Suc (length (filter (\<lambda>c. cchoice_FinishReason (chunk_Choices c ! 0) \<noteq> '''') chunks))"
  using assms
proof (induction chunks)
  case Nil
  then show ?case
    by (simp add: event_names_def GenerateStreamEndEvents_def createContentBlockStopEvent_def
          createMessageDeltaEvent_def createMessageStopEvent_def)
next
  case (Cons c chunks)
  then show ?case
    by (simp add: event_names_def processStreamEvent_def ConvertStreamChunk_def
          data_event_def createMessageStopEvent_def createContentDeltaEvent_def Let_def)
qed

section \<open>Retry: results\<close>

text \<open>The classification made by the policy, for a live context: the five status codes
  and any error that is not a \<open>net.Error\<close> are retryable; a \<open>net.Error\<close> is retryable if
  it is temporary or a timeout.\<close>

lemma policy_ShouldRetry_answers:
  "policy_ShouldRetry background (answers code) n
     \<longleftrightarrow> code = 429 \<or> code = 500 \<or> code = 502 \<or> code = 503 \<or> code = 504"
  by (simp add: policy_ShouldRetry_def background_def answers_def retryable_status_def)

lemma policy_ShouldRetry_OtherError:
  "policy_ShouldRetry background \<lparr>att_resp = None, att_err = Some (OtherError msg)\<rparr> n"
  by (simp add: policy_ShouldRetry_def background_def)

lemma policy_ShouldRetry_NetError:
  "policy_ShouldRetry background \<lparr>att_resp = None, att_err = Some (NetError temporary timeout)\<rparr> n
     \<longleftrightarrow> temporary \<or> timeout"
  by (simp add: policy_ShouldRetry_def background_def)

text \<open>The delays of the default policy lie between the base delay and the cap.\<close>

lemma BackoffDelay_default_bounds:
  assumes "n \<le> 33"
  shows "1 * Second \<le> BackoffDelay NewDefaultRetryPolicy n
         \<and> BackoffDelay NewDefaultRetryPolicy n \<le> 30 * Second"
proof -
  have "(2::int) ^ n \<le> 2 ^ 33" using assms by (intro power_increasing) simp_all
  then have up: "Second * 2 ^ n \<le> Second * 2 ^ 33" by simp
  have low: "Second * 1 \<le> Second * 2 ^ n" by (intro mult_left_mono) simp_all
  from up low have "wrap_int64 (Second * 2 ^ n) = Second * 2 ^ n"
    by (simp add: wrap_int64_def Let_def)
  with low show ?thesis
    by (simp add: BackoffDelay_def NewDefaultRetryPolicy_def Let_def)
qed

text \<open>A call that returns a response and no error ends the loop at once, whatever the
  status code of the response.\<close>

lemma doWithRetry_response_returned:
  assumes "att_err (backend 0) = None"
  shows "doWithRetry p ctx backend = (Returned (backend 0), [])"
  using assms by (simp add: doWithRetry_def doWithRetry_loop.simps)

text \<open>A refused connection is returned at once as well: its error is a \<open>net.Error\<close> that
  is neither temporary nor a timeout. Timeouts are retried: after two of them the third
  call's response is returned, having waited one and two seconds.\<close>

lemma doWithRetry_refused_not_retried:
  "doWithRetry NewDefaultRetryPolicy background backend_refused_then_200 = (Returned refused, [])"
  by (simp add: doWithRetry_def doWithRetry_loop.simps NewDefaultRetryPolicy_def
        MaxRetries_def background_def backend_refused_then_200_def refused_def
        shouldRetry_def policy_ShouldRetry_def)

lemma doWithRetry_timeout_twice:
  "doWithRetry NewDefaultRetryPolicy background backend_timeout_twice
     = (Returned (answers 200), [1 * Second, 2 * Second])"
  by (simp add: doWithRetry_def doWithRetry_loop.simps NewDefaultRetryPolicy_def
        MaxRetries_def background_def backend_timeout_twice_def timed_out_def answers_def
        shouldRetry_def policy_ShouldRetry_def BackoffDelay_def wrap_int64_def Let_def)

text \<open>
  C2. For the backend that answers 503, 503 and then 200, under the default policy and
  with a live context, \<open>doWithRetry\<close> returns the first 503 response and waits for
  nothing: an HTTP response comes with a nil error, and the loop ends on a nil error before
  the status code is looked at.
\<close>

theorem doWithRetry_503_not_retried:
  "doWithRetry NewDefaultRetryPolicy background backend_503_503_200
     = (Returned (answers 503), [])"
  by (simp add: doWithRetry_def doWithRetry_loop.simps backend_503_503_200_def answers_def)

section \<open>Server-sent events: results\<close>

lemmas eval_TrimSpace = TrimSpace_def strip_leading.simps white_space_def

lemmas eval_processStream =
  processStream_def emit_def parseEvent_def TrimPrefix_def eval_TrimSpace Let_def

lemma TrimSpace_examples:
  "TrimSpace '' data: [DONE]  '' = ''data: [DONE]''"
  "TrimSpace [CHR 0xC2, CHR 0xA0, CHR ''a'', CHR '' '', CHR ''b'', CHR 0xE3, CHR 0x80, CHR 0x80,
              CHR 0x0D] = ''a b''"
  "TrimSpace '''' = ''''"
  by (simp_all add: eval_TrimSpace)

lemma processStream_example:
  "processStream [''data: {}'', '''', ''event: note'', ''data: {}'', '''',
                  '' data: [DONE]  '', '''', ''data: {}'', '''']
   = [\<lparr>sse_Event = '''', sse_Data = ''{}'', sse_ID = ''''\<rparr>,
      \<lparr>sse_Event = ''note'', sse_Data = ''{}'', sse_ID = ''''\<rparr>,
      \<lparr>sse_Event = '''', sse_Data = ''[DONE]'', sse_ID = ''''\<rparr>,
      \<lparr>sse_Event = '''', sse_Data = ''{}'', sse_ID = ''''\<rparr>]"
  by (simp add: eval_processStream)

lemma processStream_body_one_then_done:
  "processStream body_one_then_done
   = [\<lparr>sse_Event = '''', sse_Data = ''{}'', sse_ID = ''''\<rparr>,
      \<lparr>sse_Event = '''', sse_Data = ''[DONE]'', sse_ID = ''''\<rparr>]"
  by (simp add: body_one_then_done_def eval_processStream)

text \<open>When the \<open>select\<close> takes the event case and the data of the event received is exactly
  \<open>[DONE]\<close>, \<open>Read\<close> returns \<open>io.EOF\<close>, whatever follows in the channel.\<close>

lemma Read_sentinel:
  assumes "eventChan ch = sentinel # after" and "sse_Data sentinel = ''[DONE]''"
  shows "Read unmarshal ch (CaseEvent # choices) = Some (Failed EOF, ch\<lparr>eventChan := after\<rparr>)"
  using assms by simp

text \<open>While \<open>processStream\<close> is running, the event case is the only one that can be taken,
  and only if an event is buffered.\<close>

lemma running_ready: "running ch \<Longrightarrow> ready ch choice \<longleftrightarrow> choice = CaseEvent \<and> eventChan ch \<noteq> []"
  by (cases choice) (auto simp: running_def)

lemma running_eventChan_update [simp]: "running (ch\<lparr>eventChan := events\<rparr>) = running ch"
  by (simp add: running_def)

text \<open>So a \<open>Read\<close> from a running processor that has buffered events up to and including the
  sentinel is determined by these events: whatever choices let it return, it returns the
  value of the first event with data, or \<open>io.EOF\<close> if the sentinel comes first.\<close>

lemma Read_running:
  assumes "running ch" and "eventChan ch = before @ sentinel # after"
    and "sse_Data sentinel = ''[DONE]''"
    and "\<forall>event \<in> set before. sse_Data event \<noteq> ''[DONE]''
           \<and> (sse_Data event \<noteq> '''' \<longrightarrow> (\<exists>data. unmarshal (sse_Data event) = Inr data))"
    and "Read unmarshal ch choices = Some (r, ch')"
  shows "running ch' \<and>
         (case delivered_values unmarshal before of
            [] \<Rightarrow> r = Failed EOF \<and> eventChan ch' = after
          | data # others \<Rightarrow>
              r = Value data
              \<and> (\<exists>before'. eventChan ch' = before' @ sentinel # after
                    \<and> set before' \<subseteq> set before
                    \<and> delivered_values unmarshal before' = others))"
  using assms
proof (induction before arbitrary: ch choices)
  case Nil
  from Nil.prems(1,2,5) obtain rest where c: "choices = CaseEvent # rest"
    by (cases choices) (auto simp: running_ready split: if_splits)
  with Nil.prems show ?case by (auto simp: delivered_values_def)
next
  case (Cons event before)
  from Cons.prems(1,2,5) obtain rest where c: "choices = CaseEvent # rest"
    by (cases choices) (auto simp: running_ready split: if_splits)
  show ?case
  proof (cases "sse_Data event = ''''")
    case True
    with Cons.prems c have rd: "Read unmarshal (ch\<lparr>eventChan := before @ sentinel # after\<rparr>) rest
                                  = Some (r, ch')"
      by simp
    have "running ch' \<and>
         (case delivered_values unmarshal before of
            [] \<Rightarrow> r = Failed EOF \<and> eventChan ch' = after
          | data # others \<Rightarrow>
              r = Value data
              \<and> (\<exists>before'. eventChan ch' = before' @ sentinel # after
                    \<and> set before' \<subseteq> set before
                    \<and> delivered_values unmarshal before' = others))"
      using Cons.prems by (intro Cons.IH[OF _ _ _ _ rd]) simp_all
    moreover from True have "delivered_values unmarshal (event # before)
                             = delivered_values unmarshal before"
      by (simp add: delivered_values_def)
    ultimately show ?thesis by (auto split: list.splits)
  next
    case False
    with Cons.prems obtain data where d: "unmarshal (sse_Data event) = Inr data"
      and nd: "sse_Data event \<noteq> ''[DONE]''" by auto
    from False nd d Cons.prems c have
      r: "r = Value data" and ch': "ch' = ch\<lparr>eventChan := before @ sentinel # after\<rparr>"
      by auto
    from False d have "delivered_values unmarshal (event # before)
                         = data # delivered_values unmarshal before"
      by (simp add: delivered_values_def)
    with r ch' Cons.prems(1) show ?thesis by auto
  qed
qed

text \<open>
  C8. The body \<open>data: {}\<close>, blank line, \<open>data: [DONE]\<close>, blank line, read up by
  \<open>processStream\<close> before the consumer's first call. The \<open>select\<close> of \<open>Read\<close> can take the
  done case at once: the consumer gets \<open>io.EOF\<close> and the event before the sentinel is never
  delivered. It can take the error case, whose channel is closed: \<open>Read\<close> returns
  \<open>(nil, nil)\<close> and the consumer is handed a null value that the backend never sent. Only
  when it takes the event case twice does the consumer get the event and then \<open>io.EOF\<close>.
\<close>

theorem returned_stream_loses_events:
  "outcome (consume unmarshal_empty_object
      (NewChatStreamProcessor (processStream_returned body_one_then_done None)) [[CaseDone]])
     = Some ([], EOF)
   \<and> outcome (consume unmarshal_empty_object
      (NewChatStreamProcessor (processStream_returned body_one_then_done None))
      [[CaseError], [CaseEvent], [CaseEvent]])
     = Some ([None, Some ()], EOF)
   \<and> outcome (consume unmarshal_empty_object
      (NewChatStreamProcessor (processStream_returned body_one_then_done None))
      [[CaseEvent], [CaseEvent]])
     = Some ([Some ()], EOF)"
  by (simp add: outcome_def NewChatStreamProcessor_def processStream_returned_def
        processStream_body_one_then_done Next_def unmarshal_empty_object_def)

text \<open>While \<open>processStream\<close> is still waiting on the connection, the same events are
  delivered as the claim says.\<close>

lemma waiting_stream_delivers:
  "outcome (consume unmarshal_empty_object
      (NewChatStreamProcessor (processStream_waiting body_one_then_done))
      [[CaseEvent], [CaseEvent]])
     = Some ([Some ()], EOF)
   \<and> Read unmarshal_empty_object (processStream_waiting body_one_then_done) [CaseDone] = None
   \<and> Read unmarshal_empty_object (processStream_waiting body_one_then_done) [CaseError] = None"
  by (simp add: outcome_def NewChatStreamProcessor_def processStream_waiting_def
        processStream_body_one_then_done Next_def unmarshal_empty_object_def)


end
